theory Spec2Isabelle
  imports Complex_Main "HOL-Library.Word" "HOL-Library.Log_Nat"
begin

section \<open>Conventions of the embedding\<close>

text \<open>
  The firmware keeps one static struct per component and mutates it from C functions that
  return an \<open>esp_err_t\<close>. Each component's statics become one record, each C function
  becomes a HOL function from the record to the updated record, paired with the returned
  code where the function returns one. Clock reads (\<open>esp_timer_get_time\<close>) are an
  explicit argument \<open>now\<close> in microseconds (a 64-bit word, subtraction wraps as on the
  target). A C \<open>float\<close> is the rational number it stands for. Where the result of a
  computation is compared with a threshold that rounding can cross, or is published, the
  model rounds after every operation as the target does (\<open>f32\<close> below): that is the
  conversion of rotation counts into distances and the calculation of the final wire
  length. The speeds and times elsewhere are computed exactly, and the statements about
  them depend only on comparisons and on sums of the constants involved. Where a C float
  division by zero would give NaN or infinity the model says so with \<open>None\<close>.
  Log output, the status LED and the human-readable message buffers are left out.
\<close>

datatype esp_err_t =
    ESP_OK
  | ESP_FAIL
  | ESP_ERR_NO_MEM
  | ESP_ERR_INVALID_ARG
  | ESP_ERR_INVALID_STATE
  | ESP_ERR_INVALID_SIZE
  | ESP_ERR_TIMEOUT

section \<open>Single-precision arithmetic\<close>

text \<open>
  The target computes \<open>float\<close> expressions in IEEE 754 binary32 with the default rounding:
  the exact result of each operation is replaced by the nearest number of the form
  \<open>m * 2 powi e\<close> with an integer \<open>m\<close> of at most 24 bits, the one with the even \<open>m\<close> when two
  are equally near. \<open>floor_log2 x\<close> is the exponent of the leading bit of \<open>x\<close>; the spacing
  of the binary32 numbers around \<open>x\<close> is 23 binary places below it, and never finer than
  \<open>2 powi (- 149)\<close> (the subnormal numbers). Numbers beyond the largest finite binary32 value,
  which the target turns into infinity, are not treated: the distances below are products
  of 32-bit rotation counts with the wheel circumference and stay under \<open>2 ^ 30\<close>.
\<close>

definition floor_log2 :: "rat \<Rightarrow> int" where
  "floor_log2 x =
     (let (p, q) = quotient_of \<bar>x\<bar>;
          e = bitlen p - bitlen q
      in if 2 powi e \<le> \<bar>x\<bar> then e else e - 1)"

definition round_half_even :: "rat \<Rightarrow> int" where
  "round_half_even q =
     (let n = \<lfloor>q\<rfloor>;
          d = q - of_int n
      in if d < 1 / 2 then n
         else if d > 1 / 2 then n + 1
         else if even n then n else n + 1)"

definition f32 :: "rat \<Rightarrow> rat" where
  "f32 x =
     (if x = 0 then 0
      else let u = 2 powi (max (floor_log2 x) (- 126) - 23)
           in of_int (round_half_even (x / u)) * u)"

section \<open>hardware\_control: ESC driver and Hall pulse processor\<close>

definition WHEEL_CIRCUMFERENCE_MM :: rat where "WHEEL_CIRCUMFERENCE_MM = 1916 / 10"
definition MM_TO_M :: rat where "MM_TO_M = 1 / 1000"
definition MAX_SPEED_MS :: rat where "MAX_SPEED_MS = 2"
definition ESC_SPEED_DEADBAND :: rat where "ESC_SPEED_DEADBAND = 5 / 100"
definition HALL_TIMEOUT_MS :: "64 word" where "HALL_TIMEOUT_MS = 2000"
definition ESC_MIN_DUTY :: "16 word" where "ESC_MIN_DUTY = 819"
definition ESC_NEUTRAL_DUTY :: "16 word" where "ESC_NEUTRAL_DUTY = 1229"
definition ESC_MAX_DUTY :: "16 word" where "ESC_MAX_DUTY = 1638"
definition ESC_ARM_DUTY :: "16 word" where "ESC_ARM_DUTY = 819"
definition ESC_MAX_SPEED_CHANGE :: "16 word" where "ESC_MAX_SPEED_CHANGE = 100"

datatype hardware_error_t =
    HW_ERROR_NONE
  | HW_ERROR_ESC_NOT_RESPONDING
  | HW_ERROR_HALL_SENSOR_TIMEOUT
  | HW_ERROR_PWM_INIT_FAILED
  | HW_ERROR_GPIO_INIT_FAILED
  | HW_ERROR_SPEED_OUT_OF_RANGE
  | HW_ERROR_SYSTEM_NOT_INITIALIZED

text \<open>
  The fields of \<open>g_hw_status\<close> followed by the other statics of hardware\_control.cpp.
  \<open>ledc_duty\<close> is the duty last written to the PWM peripheral (\<open>ledc_set_duty\<close>), and
  \<open>hall_task_last_time\<close> is the local \<open>last_time\<close> of the Hall processing task.
  The two callback pointers \<open>g_hall_callback\<close> and \<open>g_esc_callback\<close> are not fields:
  the sources never call \<open>hardware_register_hall_callback\<close> or
  \<open>hardware_register_esc_callback\<close>, so both pointers stay null and the guarded calls
  through them never run.
\<close>

record hardware =
  esc_armed :: bool
  esc_responding :: bool
  current_esc_duty :: "16 word"
  current_speed_ms :: rat
  target_speed_ms :: rat
  direction_forward :: bool
  total_rotations :: "32 word"
  last_hall_time :: "64 word"
  hall_sensor_healthy :: bool
  system_initialized :: bool
  g_last_error :: hardware_error_t
  g_current_position_m :: rat
  g_rotation_count_offset :: "32 word"
  g_rate_limiting_enabled :: bool
  g_last_esc_duty :: "16 word"
  ledc_duty :: "16 word"
  hall_task_last_time :: "64 word"

text \<open>The static initialisers: the state before \<open>hardware_init\<close> has run.\<close>

definition hardware_boot :: hardware where
  "hardware_boot = \<lparr> esc_armed = False, esc_responding = False,
     current_esc_duty = ESC_NEUTRAL_DUTY, current_speed_ms = 0, target_speed_ms = 0,
     direction_forward = True, total_rotations = 0, last_hall_time = 0,
     hall_sensor_healthy = False, system_initialized = False,
     g_last_error = HW_ERROR_NONE, g_current_position_m = 0,
     g_rotation_count_offset = 0, g_rate_limiting_enabled = True,
     g_last_esc_duty = ESC_NEUTRAL_DUTY, ledc_duty = 0, hall_task_last_time = 0 \<rparr>"

text \<open>One iteration of \<open>hall_processing_task\<close>: a queued pulse timestamp is consumed.\<close>

definition hall_processing_step :: "64 word \<Rightarrow> hardware \<Rightarrow> hardware" where
  "hall_processing_step hall_time hw =
     (let hw1 = hw\<lparr>total_rotations := total_rotations hw + 1\<rparr>;
          time_diff_us = hall_time - hall_task_last_time hw;
          hw2 = (if hall_task_last_time hw > 0 \<and> time_diff_us > 0
                 then let time_diff_s = of_nat (unat time_diff_us) / 1000000;
                          speed_ms = (WHEEL_CIRCUMFERENCE_MM * MM_TO_M) / time_diff_s
                      in hw1\<lparr>current_speed_ms :=
                               current_speed_ms hw1 * (7 / 10) + speed_ms * (3 / 10)\<rparr>
                 else hw1);
          distance_increment = WHEEL_CIRCUMFERENCE_MM * MM_TO_M;
          hw3 = (if direction_forward hw2
                 then hw2\<lparr>g_current_position_m := g_current_position_m hw2 + distance_increment\<rparr>
                 else hw2\<lparr>g_current_position_m := g_current_position_m hw2 - distance_increment\<rparr>)
      in hw3\<lparr>hall_task_last_time := hall_time, last_hall_time := hall_time,
              hall_sensor_healthy := True\<rparr>)"

text \<open>
  \<open>speed_to_esc_duty\<close>: clamp, deadband, then a linear map; the C cast
  \<open>(uint16_t)\<close> of a non-negative float truncates, which is \<open>floor\<close> here.
\<close>

definition speed_to_esc_duty :: "rat \<Rightarrow> bool \<Rightarrow> 16 word" where
  "speed_to_esc_duty speed_ms forward =
     (let s1 = (if speed_ms > MAX_SPEED_MS then MAX_SPEED_MS else speed_ms);
          s2 = (if s1 < 0 then 0 else s1)
      in if s2 < ESC_SPEED_DEADBAND then ESC_NEUTRAL_DUTY
         else if forward
           then ESC_NEUTRAL_DUTY +
                  word_of_int \<lfloor>(s2 / MAX_SPEED_MS) * of_nat (unat (ESC_MAX_DUTY - ESC_NEUTRAL_DUTY))\<rfloor>
           else ESC_NEUTRAL_DUTY -
                  word_of_int \<lfloor>(s2 / MAX_SPEED_MS) * of_nat (unat (ESC_NEUTRAL_DUTY - ESC_MIN_DUTY))\<rfloor>)"

text \<open>
  One iteration of the loop of \<open>esc_update_task\<close> (the periodic ESC update step).
  \<open>duty_diff\<close> is an \<open>int16_t\<close>: the signed reading of the 16-bit difference.
\<close>

definition esc_update_step :: "64 word \<Rightarrow> hardware \<Rightarrow> hardware" where
  "esc_update_step current_time hw =
     (let hw1 =
            (if system_initialized hw \<and> esc_armed hw
             then let target_duty = speed_to_esc_duty (target_speed_ms hw) (direction_forward hw);
                      duty_diff = sint (target_duty - current_esc_duty hw);
                      new_duty =
                        (if g_rate_limiting_enabled hw
                         then if \<bar>duty_diff\<bar> > uint ESC_MAX_SPEED_CHANGE
                              then if duty_diff > 0
                                   then current_esc_duty hw + ESC_MAX_SPEED_CHANGE
                                   else current_esc_duty hw - ESC_MAX_SPEED_CHANGE
                              else target_duty
                         else target_duty)
                  in hw\<lparr>current_esc_duty := new_duty, ledc_duty := new_duty,
                         g_last_esc_duty := new_duty\<rparr>
             else hw);
          hw2 = hw1\<lparr>esc_responding := (current_esc_duty hw1 = g_last_esc_duty hw1)\<rparr>
      in if last_hall_time hw2 > 0 \<and>
            current_time - last_hall_time hw2 > HALL_TIMEOUT_MS * 1000
         then let hw3 = hw2\<lparr>current_speed_ms := 0\<rparr>
              in if target_speed_ms hw3 > ESC_SPEED_DEADBAND
                 then hw3\<lparr>hall_sensor_healthy := False\<rparr>
                 else hw3
         else hw2)"

text \<open>
  \<open>hardware_init\<close>; creating the pulse queue is the one step that can fail with a
  return code (the others abort the firmware), so its outcome is the argument.
\<close>

definition hardware_init :: "bool \<Rightarrow> hardware \<Rightarrow> esp_err_t \<times> hardware" where
  "hardware_init queue_created hw =
     (let hw1 = hw\<lparr>esc_armed := False, esc_responding := False,
                    current_esc_duty := ESC_NEUTRAL_DUTY, current_speed_ms := 0,
                    target_speed_ms := 0, direction_forward := True, total_rotations := 0,
                    last_hall_time := 0, hall_sensor_healthy := False,
                    system_initialized := False\<rparr>
      in if \<not> queue_created
         then (ESP_ERR_NO_MEM, hw1\<lparr>g_last_error := HW_ERROR_GPIO_INIT_FAILED\<rparr>)
         else (ESP_OK, hw1\<lparr>current_esc_duty := ESC_NEUTRAL_DUTY,
                            g_last_esc_duty := ESC_NEUTRAL_DUTY,
                            ledc_duty := ESC_NEUTRAL_DUTY,
                            hall_task_last_time := 0,
                            system_initialized := True\<rparr>))"

definition hardware_esc_arm :: "hardware \<Rightarrow> esp_err_t \<times> hardware" where
  "hardware_esc_arm hw =
     (if \<not> system_initialized hw
      then (ESP_ERR_INVALID_STATE, hw\<lparr>g_last_error := HW_ERROR_SYSTEM_NOT_INITIALIZED\<rparr>)
      else (ESP_OK, hw\<lparr>ledc_duty := ESC_NEUTRAL_DUTY, esc_armed := True,
                       current_esc_duty := ESC_NEUTRAL_DUTY\<rparr>))"

definition hardware_esc_disarm :: "hardware \<Rightarrow> esp_err_t \<times> hardware" where
  "hardware_esc_disarm hw =
     (ESP_OK, hw\<lparr>target_speed_ms := 0, ledc_duty := ESC_NEUTRAL_DUTY,
                 esc_armed := False, current_esc_duty := ESC_NEUTRAL_DUTY\<rparr>)"

definition hardware_esc_is_armed :: "hardware \<Rightarrow> bool" where
  "hardware_esc_is_armed hw = esc_armed hw"

definition hardware_is_speed_valid :: "rat \<Rightarrow> bool" where
  "hardware_is_speed_valid speed_ms = (speed_ms \<ge> 0 \<and> speed_ms \<le> MAX_SPEED_MS)"

definition hardware_set_motor_speed :: "rat \<Rightarrow> bool \<Rightarrow> hardware \<Rightarrow> esp_err_t \<times> hardware" where
  "hardware_set_motor_speed speed_ms forward hw =
     (if \<not> system_initialized hw
      then (ESP_ERR_INVALID_STATE, hw\<lparr>g_last_error := HW_ERROR_SYSTEM_NOT_INITIALIZED\<rparr>)
      else if \<not> hardware_is_speed_valid speed_ms
      then (ESP_ERR_INVALID_ARG, hw\<lparr>g_last_error := HW_ERROR_SPEED_OUT_OF_RANGE\<rparr>)
      else if \<not> esc_armed hw
      then (ESP_ERR_INVALID_STATE, hw\<lparr>g_last_error := HW_ERROR_ESC_NOT_RESPONDING\<rparr>)
      else (ESP_OK, hw\<lparr>target_speed_ms := speed_ms, direction_forward := forward\<rparr>))"

definition hardware_emergency_stop :: "hardware \<Rightarrow> hardware" where
  "hardware_emergency_stop hw =
     hw\<lparr>target_speed_ms := 0, current_esc_duty := ESC_NEUTRAL_DUTY,
        ledc_duty := ESC_NEUTRAL_DUTY\<rparr>"

definition hardware_get_current_speed :: "hardware \<Rightarrow> rat" where
  "hardware_get_current_speed hw = current_speed_ms hw"

definition hardware_get_rotation_count :: "hardware \<Rightarrow> 32 word" where
  "hardware_get_rotation_count hw = total_rotations hw - g_rotation_count_offset hw"

definition hardware_reset_rotation_count :: "hardware \<Rightarrow> hardware" where
  "hardware_reset_rotation_count hw = hw\<lparr>g_rotation_count_offset := total_rotations hw\<rparr>"

definition hardware_get_time_since_last_hall_pulse :: "64 word \<Rightarrow> hardware \<Rightarrow> 64 word" where
  "hardware_get_time_since_last_hall_pulse now hw =
     (if last_hall_time hw = 0 then 0 else now - last_hall_time hw)"

definition hardware_is_hall_sensor_healthy :: "hardware \<Rightarrow> bool" where
  "hardware_is_hall_sensor_healthy hw = hall_sensor_healthy hw"

text \<open>
  \<open>rotations * WHEEL_CIRCUMFERENCE_MM * MM_TO_M\<close> with the literals \<open>191.6f\<close> and
  \<open>0.001f\<close>: the count is converted to \<open>float\<close>, and each of the two products is rounded.
\<close>

definition hardware_rotations_to_distance :: "32 word \<Rightarrow> rat" where
  "hardware_rotations_to_distance rotations =
     f32 (f32 (f32 (of_nat (unat rotations)) * f32 WHEEL_CIRCUMFERENCE_MM) * f32 MM_TO_M)"

definition hardware_reset_position :: "hardware \<Rightarrow> hardware" where
  "hardware_reset_position hw =
     hardware_reset_rotation_count (hw\<lparr>g_current_position_m := 0\<rparr>)"


section \<open>sensor\_health: the snapshot read by the other components\<close>

text \<open>
  The fields of \<open>sensor_health_t\<close> that the coordinator and the mode engines read through
  \<open>sensor_health_get_status\<close>. The snapshot is an input of the model: the detection
  flags are raised by the sensor tasks, outside the functions embedded here.
\<close>

record sensor_health_t =
  wheel_rotation_detected :: bool
  trolley_shake_detected :: bool
  total_accel_g :: rat
  system_ready :: bool

definition sensor_health_boot :: sensor_health_t where
  "sensor_health_boot = \<lparr> wheel_rotation_detected = False, trolley_shake_detected = False,
     total_accel_g = 0, system_ready = False \<rparr>"

definition sensor_health_reset_validation :: "sensor_health_t \<Rightarrow> sensor_health_t" where
  "sensor_health_reset_validation sh =
     sh\<lparr>system_ready := False, wheel_rotation_detected := False,
        trolley_shake_detected := False, total_accel_g := 0\<rparr>"

section \<open>Shared result types\<close>

text \<open>A C float quotient: \<open>None\<close> stands for the NaN or infinity of a zero divisor.\<close>

definition fdiv :: "rat \<Rightarrow> rat \<Rightarrow> rat option" where
  "fdiv x y = (if y = 0 then None else Some (x / y))"

datatype wire_end_detection_method_t =
    WIRE_END_NONE
  | WIRE_END_IMPACT_DETECTED
  | WIRE_END_HALL_TIMEOUT
  | WIRE_END_SPEED_DROP
  | WIRE_END_USER_STOP

record coasting_data_t =
  calibrated :: bool
  coasting_distance_m :: rat
  coast_start_distance_m :: rat
  coast_time_ms :: "32 word"
  decel_rate_ms2 :: "rat option"

definition coasting_data_zero :: coasting_data_t where
  "coasting_data_zero = \<lparr> calibrated = False, coasting_distance_m = 0,
     coast_start_distance_m = 0, coast_time_ms = 0, decel_rate_ms2 = Some 0 \<rparr>"

record wire_learning_results_t =
  complete :: bool
  wire_length_m :: rat
  optimal_learning_speed_ms :: rat
  optimal_cruise_speed_ms :: rat
  res_forward_rotations :: "32 word"
  res_reverse_rotations :: "32 word"
  total_learning_time_ms :: "32 word"
  primary_detection_method :: wire_end_detection_method_t
  learning_accuracy_percent :: rat

definition wire_learning_results_zero :: wire_learning_results_t where
  "wire_learning_results_zero = \<lparr> complete = False, wire_length_m = 0,
     optimal_learning_speed_ms = 0, optimal_cruise_speed_ms = 0,
     res_forward_rotations = 0, res_reverse_rotations = 0, total_learning_time_ms = 0,
     primary_detection_method = WIRE_END_NONE, learning_accuracy_percent = 0 \<rparr>"

section \<open>mode\_coordinator: state and the functions on its own statics\<close>

datatype trolley_operation_mode_t =
    TROLLEY_MODE_NONE
  | TROLLEY_MODE_WIRE_LEARNING
  | TROLLEY_MODE_AUTOMATIC
  | TROLLEY_MODE_MANUAL

datatype mode_availability_t =
    MODE_BLOCKED_SENSORS_NOT_VALIDATED
  | MODE_BLOCKED_WIRE_LEARNING_REQUIRED
  | MODE_BLOCKED_SYSTEM_ERROR
  | MODE_AVAILABLE
  | MODE_ACTIVE
  | MODE_STOPPING

datatype sensor_validation_state_t =
    SENSOR_VALIDATION_NOT_STARTED
  | SENSOR_VALIDATION_IN_PROGRESS
  | SENSOR_VALIDATION_HALL_PENDING
  | SENSOR_VALIDATION_ACCEL_PENDING
  | SENSOR_VALIDATION_COMPLETE
  | SENSOR_VALIDATION_FAILED

text \<open>The enumerators' integer values, for the range tests the C code makes on them.\<close>

fun sensor_validation_state_value :: "sensor_validation_state_t \<Rightarrow> nat" where
  "sensor_validation_state_value SENSOR_VALIDATION_NOT_STARTED = 0"
| "sensor_validation_state_value SENSOR_VALIDATION_IN_PROGRESS = 1"
| "sensor_validation_state_value SENSOR_VALIDATION_HALL_PENDING = 2"
| "sensor_validation_state_value SENSOR_VALIDATION_ACCEL_PENDING = 3"
| "sensor_validation_state_value SENSOR_VALIDATION_COMPLETE = 4"
| "sensor_validation_state_value SENSOR_VALIDATION_FAILED = 5"

definition SENSOR_VALIDATION_TIMEOUT_MS :: "64 word" where
  "SENSOR_VALIDATION_TIMEOUT_MS = 60000"
definition MAX_SYSTEM_ERRORS :: "32 word" where "MAX_SYSTEM_ERRORS = 10"
definition ERROR_RESET_TIME_MS :: "64 word" where "ERROR_RESET_TIME_MS = 30000"

text \<open>
  \<open>g_mode_status\<close> (its \<open>wire_learning\<close> and \<open>coasting_data\<close> members are
  \<open>ms_wire_learning\<close> and \<open>ms_coasting_data\<close>) and the other statics of
  mode\_coordinator.cpp. Writing the results to non-volatile storage is not modelled.
\<close>

record coordinator =
  current_mode :: trolley_operation_mode_t
  previous_mode :: trolley_operation_mode_t
  mode_start_time :: "64 word"
  wire_learning_availability :: mode_availability_t
  automatic_availability :: mode_availability_t
  manual_availability :: mode_availability_t
  sensor_validation_state :: sensor_validation_state_t
  sensors_validated :: bool
  hall_validation_complete :: bool
  accel_validation_complete :: bool
  ms_wire_learning :: wire_learning_results_t
  ms_coasting_data :: coasting_data_t
  auto_cycle_count :: "32 word"
  auto_cycle_interrupted :: bool
  system_healthy :: bool
  g_coordinator_initialized :: bool
  g_sensor_validation_start_time :: "64 word"
  g_hall_validation_user_confirmed :: bool
  g_accel_validation_user_confirmed :: bool
  g_wire_learning_data :: wire_learning_results_t
  g_coasting_data :: coasting_data_t
  g_error_count :: "32 word"
  g_last_error_reset_time :: "64 word"

definition coordinator_boot :: coordinator where
  "coordinator_boot = \<lparr> current_mode = TROLLEY_MODE_NONE, previous_mode = TROLLEY_MODE_NONE,
     mode_start_time = 0,
     wire_learning_availability = MODE_BLOCKED_SENSORS_NOT_VALIDATED,
     automatic_availability = MODE_BLOCKED_SENSORS_NOT_VALIDATED,
     manual_availability = MODE_BLOCKED_SENSORS_NOT_VALIDATED,
     sensor_validation_state = SENSOR_VALIDATION_NOT_STARTED,
     sensors_validated = False, hall_validation_complete = False,
     accel_validation_complete = False,
     ms_wire_learning = wire_learning_results_zero, ms_coasting_data = coasting_data_zero,
     auto_cycle_count = 0, auto_cycle_interrupted = False, system_healthy = False,
     g_coordinator_initialized = False, g_sensor_validation_start_time = 0,
     g_hall_validation_user_confirmed = False, g_accel_validation_user_confirmed = False,
     g_wire_learning_data = wire_learning_results_zero, g_coasting_data = coasting_data_zero,
     g_error_count = 0, g_last_error_reset_time = 0 \<rparr>"

text \<open>
  \<open>update_sensor_validation_state\<close>, with the snapshot of the sensor health and the
  clock it reads.
\<close>

definition update_sensor_validation_state ::
    "sensor_health_t \<Rightarrow> 64 word \<Rightarrow> coordinator \<Rightarrow> coordinator" where
  "update_sensor_validation_state sensor_status now c =
     (let c1 =
        (case sensor_validation_state c of
           SENSOR_VALIDATION_NOT_STARTED \<Rightarrow> c
         | SENSOR_VALIDATION_IN_PROGRESS \<Rightarrow>
             if wheel_rotation_detected sensor_status \<and> \<not> g_hall_validation_user_confirmed c
             then c\<lparr>sensor_validation_state := SENSOR_VALIDATION_HALL_PENDING\<rparr>
             else c
         | SENSOR_VALIDATION_HALL_PENDING \<Rightarrow>
             if g_hall_validation_user_confirmed c
             then c\<lparr>sensor_validation_state := SENSOR_VALIDATION_ACCEL_PENDING,
                    hall_validation_complete := True\<rparr>
             else c
         | SENSOR_VALIDATION_ACCEL_PENDING \<Rightarrow>
             if trolley_shake_detected sensor_status \<and> \<not> g_accel_validation_user_confirmed c
             then c
             else if g_accel_validation_user_confirmed c
             then c\<lparr>sensor_validation_state := SENSOR_VALIDATION_COMPLETE,
                    accel_validation_complete := True,
                    sensors_validated := True\<rparr>
             else c
         | SENSOR_VALIDATION_COMPLETE \<Rightarrow> c
         | SENSOR_VALIDATION_FAILED \<Rightarrow> c)
      in if sensor_validation_state_value (sensor_validation_state c1) >
              sensor_validation_state_value SENSOR_VALIDATION_NOT_STARTED \<and>
            sensor_validation_state_value (sensor_validation_state c1) <
              sensor_validation_state_value SENSOR_VALIDATION_COMPLETE \<and>
            now - g_sensor_validation_start_time c1 > SENSOR_VALIDATION_TIMEOUT_MS * 1000
         then c1\<lparr>sensor_validation_state := SENSOR_VALIDATION_FAILED\<rparr>
         else c1)"

text \<open>
  \<open>mode_coordinator_init\<close>; the two arguments are what \<open>load_persistent_data\<close> finds
  in non-volatile storage (\<open>None\<close>: nothing stored, the static is left as it is).
\<close>

definition mode_coordinator_init ::
    "wire_learning_results_t option \<Rightarrow> coasting_data_t option \<Rightarrow> coordinator \<Rightarrow>
     esp_err_t \<times> coordinator" where
  "mode_coordinator_init stored_wire stored_coasting c =
     (let c1 = c\<lparr>current_mode := TROLLEY_MODE_NONE, previous_mode := TROLLEY_MODE_NONE,
                  mode_start_time := 0,
                  wire_learning_availability := MODE_BLOCKED_SENSORS_NOT_VALIDATED,
                  automatic_availability := MODE_BLOCKED_SENSORS_NOT_VALIDATED,
                  manual_availability := MODE_BLOCKED_SENSORS_NOT_VALIDATED,
                  sensor_validation_state := SENSOR_VALIDATION_NOT_STARTED,
                  sensors_validated := False, hall_validation_complete := False,
                  accel_validation_complete := False,
                  ms_wire_learning := wire_learning_results_zero,
                  ms_coasting_data := coasting_data_zero,
                  auto_cycle_count := 0, auto_cycle_interrupted := False,
                  system_healthy := True\<rparr>;
          c2 = (case stored_wire of None \<Rightarrow> c1 | Some r \<Rightarrow> c1\<lparr>g_wire_learning_data := r\<rparr>);
          c3 = (case stored_coasting of None \<Rightarrow> c2 | Some d \<Rightarrow> c2\<lparr>g_coasting_data := d\<rparr>)
      in (ESP_OK, c3\<lparr>g_coordinator_initialized := True\<rparr>))"

definition mode_coordinator_is_mode_available ::
    "trolley_operation_mode_t \<Rightarrow> coordinator \<Rightarrow> bool" where
  "mode_coordinator_is_mode_available mode c =
     (case mode of
        TROLLEY_MODE_WIRE_LEARNING \<Rightarrow> wire_learning_availability c = MODE_AVAILABLE
      | TROLLEY_MODE_AUTOMATIC \<Rightarrow> automatic_availability c = MODE_AVAILABLE
      | TROLLEY_MODE_MANUAL \<Rightarrow> manual_availability c = MODE_AVAILABLE
      | TROLLEY_MODE_NONE \<Rightarrow> False)"

definition mode_coordinator_start_sensor_validation ::
    "64 word \<Rightarrow> coordinator \<Rightarrow> esp_err_t \<times> coordinator" where
  "mode_coordinator_start_sensor_validation now c =
     (ESP_OK, c\<lparr>sensor_validation_state := SENSOR_VALIDATION_IN_PROGRESS,
                g_sensor_validation_start_time := now,
                g_hall_validation_user_confirmed := False,
                g_accel_validation_user_confirmed := False,
                sensors_validated := False,
                hall_validation_complete := False,
                accel_validation_complete := False\<rparr>)"

definition mode_coordinator_confirm_hall_validation ::
    "coordinator \<Rightarrow> esp_err_t \<times> coordinator" where
  "mode_coordinator_confirm_hall_validation c =
     (if sensor_validation_state c \<noteq> SENSOR_VALIDATION_HALL_PENDING
      then (ESP_ERR_INVALID_STATE, c)
      else (ESP_OK, c\<lparr>g_hall_validation_user_confirmed := True\<rparr>))"

definition mode_coordinator_confirm_accel_validation ::
    "coordinator \<Rightarrow> esp_err_t \<times> coordinator" where
  "mode_coordinator_confirm_accel_validation c =
     (if sensor_validation_state c \<noteq> SENSOR_VALIDATION_ACCEL_PENDING
      then (ESP_ERR_INVALID_STATE, c)
      else (ESP_OK, c\<lparr>g_accel_validation_user_confirmed := True\<rparr>))"

definition mode_coordinator_are_sensors_validated :: "coordinator \<Rightarrow> bool" where
  "mode_coordinator_are_sensors_validated c = sensors_validated c"

text \<open>The C function takes a pointer; the null case (\<open>ESP_ERR_INVALID_ARG\<close>) is \<open>None\<close>.\<close>

definition mode_coordinator_set_wire_learning_results ::
    "wire_learning_results_t option \<Rightarrow> coordinator \<Rightarrow> esp_err_t \<times> coordinator" where
  "mode_coordinator_set_wire_learning_results results c =
     (case results of
        None \<Rightarrow> (ESP_ERR_INVALID_ARG, c)
      | Some r \<Rightarrow>
          (ESP_OK, c\<lparr>g_wire_learning_data := r,
                     ms_wire_learning := (ms_wire_learning c)\<lparr>
                        complete := complete r,
                        wire_length_m := wire_length_m r,
                        optimal_learning_speed_ms := optimal_learning_speed_ms r,
                        optimal_cruise_speed_ms := optimal_cruise_speed_ms r,
                        res_forward_rotations := res_forward_rotations r,
                        res_reverse_rotations := res_reverse_rotations r,
                        total_learning_time_ms := total_learning_time_ms r\<rparr>\<rparr>))"

definition mode_coordinator_get_wire_learning_results ::
    "coordinator \<Rightarrow> wire_learning_results_t option" where
  "mode_coordinator_get_wire_learning_results c =
     (if complete (g_wire_learning_data c) then Some (g_wire_learning_data c) else None)"

definition mode_coordinator_set_coasting_data ::
    "coasting_data_t option \<Rightarrow> coordinator \<Rightarrow> esp_err_t \<times> coordinator" where
  "mode_coordinator_set_coasting_data coasting_data c =
     (case coasting_data of
        None \<Rightarrow> (ESP_ERR_INVALID_ARG, c)
      | Some d \<Rightarrow> (ESP_OK, c\<lparr>g_coasting_data := d, ms_coasting_data := d\<rparr>))"

definition mode_coordinator_get_coasting_data :: "coordinator \<Rightarrow> coasting_data_t option" where
  "mode_coordinator_get_coasting_data c =
     (if calibrated (g_coasting_data c) then Some (g_coasting_data c) else None)"


section \<open>The state of the three mode engines\<close>

subsection \<open>wire\_learning\_mode\<close>

definition WIRE_LEARNING_START_SPEED_MS :: rat where "WIRE_LEARNING_START_SPEED_MS = 1 / 10"
definition WIRE_LEARNING_MAX_SPEED_MS :: rat where "WIRE_LEARNING_MAX_SPEED_MS = 1"
definition WIRE_LEARNING_SPEED_INCREMENT :: rat where "WIRE_LEARNING_SPEED_INCREMENT = 1 / 10"
definition WIRE_LEARNING_TIMEOUT_S :: "64 word" where "WIRE_LEARNING_TIMEOUT_S = 60"
definition WIRE_LENGTH_TOLERANCE_PERCENT :: rat where "WIRE_LENGTH_TOLERANCE_PERCENT = 5"
definition MIN_WIRE_LENGTH_M :: rat where "MIN_WIRE_LENGTH_M = 2"
definition MAX_WIRE_LENGTH_M :: rat where "MAX_WIRE_LENGTH_M = 2000"
definition WIRE_END_IMPACT_THRESHOLD_G :: rat where "WIRE_END_IMPACT_THRESHOLD_G = 1"
definition WIRE_END_HALL_TIMEOUT_MS :: "64 word" where "WIRE_END_HALL_TIMEOUT_MS = 2000"
definition WIRE_END_SPEED_DROP_PERCENT :: rat where "WIRE_END_SPEED_DROP_PERCENT = 70"
definition LEARNING_MIN_HALL_PULSES :: "32 word" where "LEARNING_MIN_HALL_PULSES = 10"
definition LEARNING_HALL_TIMEOUT_MS :: "64 word" where "LEARNING_HALL_TIMEOUT_MS = 3000"

datatype wire_learning_state_t =
    WIRE_LEARNING_IDLE
  | WIRE_LEARNING_INITIALIZING
  | WIRE_LEARNING_FORWARD_DIRECTION
  | WIRE_LEARNING_DIRECTION_PAUSE
  | WIRE_LEARNING_REVERSE_DIRECTION
  | WIRE_LEARNING_CALCULATING_RESULTS
  | WIRE_LEARNING_COMPLETE
  | WIRE_LEARNING_FAILED
  | WIRE_LEARNING_STOPPING

fun wire_learning_state_value :: "wire_learning_state_t \<Rightarrow> nat" where
  "wire_learning_state_value WIRE_LEARNING_IDLE = 0"
| "wire_learning_state_value WIRE_LEARNING_INITIALIZING = 1"
| "wire_learning_state_value WIRE_LEARNING_FORWARD_DIRECTION = 2"
| "wire_learning_state_value WIRE_LEARNING_DIRECTION_PAUSE = 3"
| "wire_learning_state_value WIRE_LEARNING_REVERSE_DIRECTION = 4"
| "wire_learning_state_value WIRE_LEARNING_CALCULATING_RESULTS = 5"
| "wire_learning_state_value WIRE_LEARNING_COMPLETE = 6"
| "wire_learning_state_value WIRE_LEARNING_FAILED = 7"
| "wire_learning_state_value WIRE_LEARNING_STOPPING = 8"

text \<open>
  \<open>g_learning_progress\<close> (first block of fields; its \<open>state\<close> is \<open>wl_state\<close>) and the
  other statics of wire\_learning\_mode.cpp. \<open>length_difference_percent\<close> is a float
  quotient and may be NaN, hence the option.
\<close>

record wire_learning =
  wl_state :: wire_learning_state_t
  learning_start_time :: "64 word"
  current_direction_forward :: bool
  direction_start_rotations :: "32 word"
  direction_start_time :: "64 word"
  current_learning_speed :: rat
  forward_rotations :: "32 word"
  forward_distance_m :: rat
  forward_time_ms :: "32 word"
  forward_end_method :: wire_end_detection_method_t
  reverse_rotations :: "32 word"
  reverse_distance_m :: rat
  reverse_time_ms :: "32 word"
  reverse_end_method :: wire_end_detection_method_t
  calculated_wire_length_m :: rat
  length_difference_percent :: "rat option"
  learning_successful :: bool
  g_learning_results :: wire_learning_results_t
  g_learning_initialized :: bool
  g_current_test_speed :: rat
  g_hall_pulses_at_speed_start :: "32 word"
  g_speed_test_start_time :: "64 word"
  g_speed_validated :: bool
  g_coasting_calibration_active :: bool
  g_coasting_start_rotations :: "32 word"
  g_coasting_start_time :: "64 word"
  g_coasting_start_speed :: rat
  g_consecutive_hall_timeouts :: "32 word"
  g_speed_history :: "rat list"
  g_speed_history_index :: nat

text \<open>
  \<open>g_speed_history\<close> is the array \<open>float g_speed_history[5]\<close>: a list of five elements.
  Its index is only ever set to 0 or to \<open>(index + 1) % 5\<close>, so it stays below 5 and the
  update by index is always inside the list.
\<close>

text \<open>\<open>memset(&g_learning_progress, 0, ...)\<close>.\<close>

definition clear_learning_progress :: "wire_learning \<Rightarrow> wire_learning" where
  "clear_learning_progress w =
     w\<lparr>wl_state := WIRE_LEARNING_IDLE, learning_start_time := 0,
       current_direction_forward := False, direction_start_rotations := 0,
       direction_start_time := 0, current_learning_speed := 0,
       forward_rotations := 0, forward_distance_m := 0, forward_time_ms := 0,
       forward_end_method := WIRE_END_NONE,
       reverse_rotations := 0, reverse_distance_m := 0, reverse_time_ms := 0,
       reverse_end_method := WIRE_END_NONE,
       calculated_wire_length_m := 0, length_difference_percent := Some 0,
       learning_successful := False\<rparr>"

definition wire_learning_boot :: wire_learning where
  "wire_learning_boot = \<lparr> wl_state = WIRE_LEARNING_IDLE, learning_start_time = 0,
     current_direction_forward = False, direction_start_rotations = 0,
     direction_start_time = 0, current_learning_speed = 0,
     forward_rotations = 0, forward_distance_m = 0, forward_time_ms = 0,
     forward_end_method = WIRE_END_NONE,
     reverse_rotations = 0, reverse_distance_m = 0, reverse_time_ms = 0,
     reverse_end_method = WIRE_END_NONE,
     calculated_wire_length_m = 0, length_difference_percent = Some 0,
     learning_successful = False,
     g_learning_results = wire_learning_results_zero, g_learning_initialized = False,
     g_current_test_speed = WIRE_LEARNING_START_SPEED_MS,
     g_hall_pulses_at_speed_start = 0, g_speed_test_start_time = 0,
     g_speed_validated = False, g_coasting_calibration_active = False,
     g_coasting_start_rotations = 0, g_coasting_start_time = 0, g_coasting_start_speed = 0,
     g_consecutive_hall_timeouts = 0, g_speed_history = [0, 0, 0, 0, 0],
     g_speed_history_index = 0 \<rparr>"

subsection \<open>automatic\_mode\<close>

definition COAST_DETECTION_SPEED_MS :: rat where "COAST_DETECTION_SPEED_MS = 1 / 10"
definition AUTO_MODE_MIN_WIRE_LENGTH_M :: rat where "AUTO_MODE_MIN_WIRE_LENGTH_M = 2"
definition AUTO_MODE_MAX_SPEED_MS :: rat where "AUTO_MODE_MAX_SPEED_MS = 5"
definition AUTO_MODE_START_SPEED_MS :: rat where "AUTO_MODE_START_SPEED_MS = 1 / 10"
definition AUTO_MODE_ACCEL_RATE_MS2 :: rat where "AUTO_MODE_ACCEL_RATE_MS2 = 1 / 2"
definition AUTO_COASTING_CALIBRATION_SPEED :: rat where "AUTO_COASTING_CALIBRATION_SPEED = 5"
definition AUTO_COASTING_SAFETY_MARGIN_M :: rat where "AUTO_COASTING_SAFETY_MARGIN_M = 2"
definition AUTO_COASTING_MAX_DISTANCE_M :: rat where "AUTO_COASTING_MAX_DISTANCE_M = 50"
definition AUTO_COASTING_MIN_DISTANCE_M :: rat where "AUTO_COASTING_MIN_DISTANCE_M = 1 / 2"
definition AUTO_MODE_WIRE_END_APPROACH_MS :: rat where "AUTO_MODE_WIRE_END_APPROACH_MS = 1"
definition AUTO_MODE_MAX_IMPACT_G :: rat where "AUTO_MODE_MAX_IMPACT_G = 1 / 2"

datatype automatic_mode_state_t =
    AUTO_MODE_IDLE
  | AUTO_MODE_INITIALIZING
  | AUTO_MODE_ARMING_ESC
  | AUTO_MODE_ACCELERATING
  | AUTO_MODE_CRUISING
  | AUTO_MODE_COASTING_CALIBRATION
  | AUTO_MODE_COASTING
  | AUTO_MODE_WIRE_END_APPROACH
  | AUTO_MODE_DIRECTION_CHANGE
  | AUTO_MODE_CYCLE_COMPLETE
  | AUTO_MODE_STOPPING_GRACEFUL
  | AUTO_MODE_STOPPING_INTERRUPTED
  | AUTO_MODE_ERROR
  | AUTO_MODE_COMPLETE

fun automatic_mode_state_value :: "automatic_mode_state_t \<Rightarrow> nat" where
  "automatic_mode_state_value AUTO_MODE_IDLE = 0"
| "automatic_mode_state_value AUTO_MODE_INITIALIZING = 1"
| "automatic_mode_state_value AUTO_MODE_ARMING_ESC = 2"
| "automatic_mode_state_value AUTO_MODE_ACCELERATING = 3"
| "automatic_mode_state_value AUTO_MODE_CRUISING = 4"
| "automatic_mode_state_value AUTO_MODE_COASTING_CALIBRATION = 5"
| "automatic_mode_state_value AUTO_MODE_COASTING = 6"
| "automatic_mode_state_value AUTO_MODE_WIRE_END_APPROACH = 7"
| "automatic_mode_state_value AUTO_MODE_DIRECTION_CHANGE = 8"
| "automatic_mode_state_value AUTO_MODE_CYCLE_COMPLETE = 9"
| "automatic_mode_state_value AUTO_MODE_STOPPING_GRACEFUL = 10"
| "automatic_mode_state_value AUTO_MODE_STOPPING_INTERRUPTED = 11"
| "automatic_mode_state_value AUTO_MODE_ERROR = 12"
| "automatic_mode_state_value AUTO_MODE_COMPLETE = 13"

record coasting_calibration_t =
  cal_calibrated :: bool
  calibration_speed_ms :: rat
  cal_coasting_distance_m :: rat
  coasting_time_ms :: "32 word"
  deceleration_rate_ms2 :: "rat option"
  cal_coast_start_distance_m :: rat
  calibration_rotations :: "32 word"
  calibration_successful :: bool

definition coasting_calibration_zero :: coasting_calibration_t where
  "coasting_calibration_zero = \<lparr> cal_calibrated = False, calibration_speed_ms = 0,
     cal_coasting_distance_m = 0, coasting_time_ms = 0, deceleration_rate_ms2 = Some 0,
     cal_coast_start_distance_m = 0, calibration_rotations = 0,
     calibration_successful = False \<rparr>"

text \<open>
  The fields of \<open>g_auto_progress\<close> that the embedded functions touch (\<open>auto_state\<close> is
  its \<open>state\<close>, \<open>cycle_direction_forward\<close> is \<open>cycle_data.current_direction_forward\<close>),
  the other statics of automatic\_mode.cpp, and \<open>calibration_motor_stopped\<close>, the static
  local of \<open>automatic_mode_update_coasting_calibration\<close>.
\<close>

record automatic_mode =
  auto_state :: automatic_mode_state_t
  auto_state_start_time :: "64 word"
  auto_mode_start_time :: "64 word"
  current_target_speed :: rat
  acceleration_rate :: rat
  esc_auto_armed :: bool
  coasting :: coasting_calibration_t
  cycle_direction_forward :: bool
  user_interrupted :: bool
  finishing_current_run :: bool
  auto_wire_length_m :: rat
  auto_current_position_m :: rat
  g_auto_initialized :: bool
  g_current_acceleration_target :: rat
  g_acceleration_start_time :: "64 word"
  g_acceleration_start_rotations :: "32 word"
  g_coasting_in_progress :: bool
  auto_coasting_start_time :: "64 word"
  auto_coasting_start_rotations :: "32 word"
  auto_coasting_start_speed :: rat
  g_user_interruption_requested :: bool
  g_interruption_request_time :: "64 word"
  calibration_motor_stopped :: bool

definition automatic_mode_boot :: automatic_mode where
  "automatic_mode_boot = \<lparr> auto_state = AUTO_MODE_IDLE, auto_state_start_time = 0,
     auto_mode_start_time = 0, current_target_speed = 0,
     acceleration_rate = AUTO_MODE_ACCEL_RATE_MS2, esc_auto_armed = False,
     coasting = coasting_calibration_zero, cycle_direction_forward = False,
     user_interrupted = False, finishing_current_run = False,
     auto_wire_length_m = 0, auto_current_position_m = 0,
     g_auto_initialized = False, g_current_acceleration_target = 0,
     g_acceleration_start_time = 0, g_acceleration_start_rotations = 0,
     g_coasting_in_progress = False, auto_coasting_start_time = 0,
     auto_coasting_start_rotations = 0, auto_coasting_start_speed = 0,
     g_user_interruption_requested = False, g_interruption_request_time = 0,
     calibration_motor_stopped = False \<rparr>"

subsection \<open>manual\_mode\<close>

definition MANUAL_MODE_MAX_SPEED_MS :: rat where "MANUAL_MODE_MAX_SPEED_MS = 2"
definition MANUAL_MODE_MIN_SPEED_MS :: rat where "MANUAL_MODE_MIN_SPEED_MS = 5 / 100"

datatype manual_mode_state_t =
    MANUAL_MODE_IDLE
  | MANUAL_MODE_INITIALIZING
  | MANUAL_MODE_READY
  | MANUAL_MODE_ESC_ARMING
  | MANUAL_MODE_ACTIVE
  | MANUAL_MODE_MOVING_FORWARD
  | MANUAL_MODE_MOVING_BACKWARD
  | MANUAL_MODE_STOPPING
  | MANUAL_MODE_ESC_DISARMING
  | MANUAL_MODE_ERROR
  | MANUAL_MODE_EMERGENCY_STOP

fun manual_mode_state_value :: "manual_mode_state_t \<Rightarrow> nat" where
  "manual_mode_state_value MANUAL_MODE_IDLE = 0"
| "manual_mode_state_value MANUAL_MODE_INITIALIZING = 1"
| "manual_mode_state_value MANUAL_MODE_READY = 2"
| "manual_mode_state_value MANUAL_MODE_ESC_ARMING = 3"
| "manual_mode_state_value MANUAL_MODE_ACTIVE = 4"
| "manual_mode_state_value MANUAL_MODE_MOVING_FORWARD = 5"
| "manual_mode_state_value MANUAL_MODE_MOVING_BACKWARD = 6"
| "manual_mode_state_value MANUAL_MODE_STOPPING = 7"
| "manual_mode_state_value MANUAL_MODE_ESC_DISARMING = 8"
| "manual_mode_state_value MANUAL_MODE_ERROR = 9"
| "manual_mode_state_value MANUAL_MODE_EMERGENCY_STOP = 10"

text \<open>
  The fields of \<open>g_manual_status\<close> and \<open>g_session_stats\<close> that starting, stopping and
  speed commands touch, and \<open>g_manual_initialized\<close>. Fields whose names the hardware
  record already uses carry the prefix \<open>man_\<close>.
\<close>

record manual_mode =
  man_state :: manual_mode_state_t
  man_mode_start_time :: "64 word"
  man_current_speed_ms :: rat
  man_target_speed_ms :: rat
  man_direction_forward :: bool
  motor_active :: bool
  man_esc_armed :: bool
  man_esc_responding :: bool
  esc_arm_time :: "64 word"
  command_count :: "32 word"
  man_error_count :: "32 word"
  max_speed_reached :: rat
  total_commands_executed :: "32 word"
  max_speed_used :: rat
  total_distance_traveled_m :: rat
  session_duration_ms :: "32 word"
  motor_active_time_ms :: "32 word"
  average_speed :: rat
  g_manual_initialized :: bool

definition manual_mode_boot :: manual_mode where
  "manual_mode_boot = \<lparr> man_state = MANUAL_MODE_IDLE, man_mode_start_time = 0,
     man_current_speed_ms = 0, man_target_speed_ms = 0, man_direction_forward = True,
     motor_active = False, man_esc_armed = False, man_esc_responding = False,
     esc_arm_time = 0, command_count = 0, man_error_count = 0, max_speed_reached = 0,
     total_commands_executed = 0, max_speed_used = 0, total_distance_traveled_m = 0,
     session_duration_ms = 0, motor_active_time_ms = 0, average_speed = 0,
     g_manual_initialized = False \<rparr>"

section \<open>The whole system\<close>

record system =
  hw :: hardware
  sensor :: sensor_health_t
  coord :: coordinator
  wl :: wire_learning
  am :: automatic_mode
  mm :: manual_mode

definition system_boot :: system where
  "system_boot = \<lparr> hw = hardware_boot, sensor = sensor_health_boot, coord = coordinator_boot,
     wl = wire_learning_boot, am = automatic_mode_boot, mm = manual_mode_boot \<rparr>"


section \<open>wire\_learning\_mode: the functions\<close>

text \<open>
  A call of an engine function is one step of the model: it sees one clock reading \<open>now\<close>
  and the hardware as it is on entry. The one wait whose successive observations decide
  its result, the coasting measurement loop, takes them as a list.
\<close>

definition start_speed_test :: "64 word \<Rightarrow> rat \<Rightarrow> system \<Rightarrow> esp_err_t \<times> system" where
  "start_speed_test now speed_ms s =
     (let w1 = (wl s)\<lparr>g_current_test_speed := speed_ms, g_speed_validated := False,
                       g_hall_pulses_at_speed_start := hardware_get_rotation_count (hw s),
                       g_speed_test_start_time := now\<rparr>;
          (result, hw1) = hardware_set_motor_speed speed_ms (current_direction_forward w1) (hw s)
      in if result \<noteq> ESP_OK
         then (result, s\<lparr>hw := hw1, wl := w1\<rparr>)
         else (ESP_OK, s\<lparr>hw := hw1, wl := w1\<lparr>current_learning_speed := speed_ms\<rparr>\<rparr>))"

definition validate_current_speed :: "64 word \<Rightarrow> system \<Rightarrow> bool \<times> system" where
  "validate_current_speed now s =
     (let elapsed_time = now - g_speed_test_start_time (wl s);
          current_rotations = hardware_get_rotation_count (hw s);
          hall_pulses = current_rotations - g_hall_pulses_at_speed_start (wl s)
      in if hall_pulses \<ge> LEARNING_MIN_HALL_PULSES
         then (True, s\<lparr>wl := (wl s)\<lparr>g_speed_validated := True\<rparr>\<rparr>)
         else if elapsed_time > LEARNING_HALL_TIMEOUT_MS * 1000
         then (False, s)
         else (False, s))"

definition progress_to_next_speed :: "64 word \<Rightarrow> system \<Rightarrow> esp_err_t \<times> system" where
  "progress_to_next_speed now s =
     (if g_current_test_speed (wl s) \<ge> WIRE_LEARNING_MAX_SPEED_MS
      then (ESP_OK, s)
      else let next_speed0 = g_current_test_speed (wl s) + WIRE_LEARNING_SPEED_INCREMENT;
               next_speed = (if next_speed0 > WIRE_LEARNING_MAX_SPEED_MS
                             then WIRE_LEARNING_MAX_SPEED_MS else next_speed0)
           in start_speed_test now next_speed s)"

definition wire_learning_detect_impact :: "system \<Rightarrow> bool" where
  "wire_learning_detect_impact s = (total_accel_g (sensor s) > WIRE_END_IMPACT_THRESHOLD_G)"

definition wire_learning_detect_hall_timeout :: "64 word \<Rightarrow> system \<Rightarrow> bool \<times> system" where
  "wire_learning_detect_hall_timeout now s =
     (let time_since_last_pulse = hardware_get_time_since_last_hall_pulse now (hw s)
      in if time_since_last_pulse > WIRE_END_HALL_TIMEOUT_MS * 1000
         then let n = g_consecutive_hall_timeouts (wl s) + 1
              in if n \<ge> 3
                 then (True, s\<lparr>wl := (wl s)\<lparr>g_consecutive_hall_timeouts := 0\<rparr>\<rparr>)
                 else (False, s\<lparr>wl := (wl s)\<lparr>g_consecutive_hall_timeouts := n\<rparr>\<rparr>)
         else (False, s\<lparr>wl := (wl s)\<lparr>g_consecutive_hall_timeouts := 0\<rparr>\<rparr>))"

definition wire_learning_detect_speed_drop :: "system \<Rightarrow> bool \<times> system" where
  "wire_learning_detect_speed_drop s =
     (let current_speed = hardware_get_current_speed (hw s);
          history = (g_speed_history (wl s))[g_speed_history_index (wl s) := current_speed];
          w1 = (wl s)\<lparr>g_speed_history := history,
                       g_speed_history_index := (g_speed_history_index (wl s) + 1) mod 5\<rparr>;
          avg_speed = sum_list (take 5 history) / 5;
          speed_drop_threshold = g_current_test_speed w1 * (WIRE_END_SPEED_DROP_PERCENT / 100)
      in (g_current_test_speed w1 > 2 / 10 \<and> avg_speed < speed_drop_threshold,
          s\<lparr>wl := w1\<rparr>))"

definition wire_learning_get_best_detection_method ::
    "64 word \<Rightarrow> system \<Rightarrow> wire_end_detection_method_t \<times> system" where
  "wire_learning_get_best_detection_method now s =
     (if wire_learning_detect_impact s then (WIRE_END_IMPACT_DETECTED, s)
      else let (drop, s1) = wire_learning_detect_speed_drop s
           in if drop then (WIRE_END_SPEED_DROP, s1)
              else let (timeout, s2) = wire_learning_detect_hall_timeout now s1
                   in if timeout then (WIRE_END_HALL_TIMEOUT, s2)
                      else (WIRE_END_NONE, s2))"

definition wire_learning_reset_detection :: "wire_learning \<Rightarrow> wire_learning" where
  "wire_learning_reset_detection w =
     w\<lparr>g_consecutive_hall_timeouts := 0, g_speed_history_index := 0,
       g_speed_history := [0, 0, 0, 0, 0]\<rparr>"

definition start_coasting_calibration :: "64 word \<Rightarrow> system \<Rightarrow> esp_err_t \<times> system" where
  "start_coasting_calibration now s =
     (let w1 = (wl s)\<lparr>g_coasting_calibration_active := True,
                       g_coasting_start_rotations := hardware_get_rotation_count (hw s),
                       g_coasting_start_time := now,
                       g_coasting_start_speed := 5\<rparr>;
          (result, hw1) = hardware_set_motor_speed 5 (current_direction_forward w1) (hw s)
      in (result, s\<lparr>hw := hw1, wl := w1\<rparr>))"

text \<open>
  The wait loop of \<open>process_coasting_calibration\<close>:
  \<^verbatim>\<open>while (hardware_get_current_speed() > 0.1f) { vTaskDelay(...);
       if ((esp_timer_get_time() - coast_start_time) > 30000000ULL) break; }\<close>
  \<open>cur\<close> is the clock and hardware the loop test sees, the list holds what each following
  poll sees after its delay. \<open>None\<close>: the observations end while the loop is still waiting.
\<close>

fun coast_wait ::
    "64 word \<Rightarrow> (64 word \<times> hardware) list \<Rightarrow> 64 word \<times> hardware \<Rightarrow>
     (64 word \<times> hardware) option" where
  "coast_wait coast_start_time [] cur =
     (if hardware_get_current_speed (snd cur) > 1 / 10 then None else Some cur)"
| "coast_wait coast_start_time (x # xs) cur =
     (if hardware_get_current_speed (snd cur) > 1 / 10
      then if fst x - coast_start_time > 30000000 then Some x
           else coast_wait coast_start_time xs x
      else Some cur)"

definition process_coasting_calibration ::
    "64 word \<Rightarrow> (64 word \<times> hardware) list \<Rightarrow> system \<Rightarrow> (esp_err_t \<times> system) option" where
  "process_coasting_calibration now polls s =
     (if \<not> g_coasting_calibration_active (wl s) then Some (ESP_OK, s)
      else if hardware_get_current_speed (hw s) < 48 / 10 then Some (ESP_OK, s)
      else let (r, hw1) = hardware_set_motor_speed 0 True (hw s);
               coast_start_time = now;
               coast_start_rotations = hardware_get_rotation_count hw1
           in case coast_wait coast_start_time polls (now, hw1) of
                None \<Rightarrow> None
              | Some (coast_end_time, hw2) \<Rightarrow>
                  let coast_end_rotations = hardware_get_rotation_count hw2;
                      time_ms = (ucast ((coast_end_time - coast_start_time) div 1000) :: 32 word);
                      distance = hardware_rotations_to_distance
                                   (coast_end_rotations - coast_start_rotations);
                      coasting_data = \<lparr> calibrated = True,
                         coasting_distance_m = distance,
                         coast_start_distance_m = distance + 2,
                         coast_time_ms = time_ms,
                         decel_rate_ms2 = fdiv (g_coasting_start_speed (wl s))
                                               (of_nat (unat time_ms) / 1000) \<rparr>;
                      (r2, c1) = mode_coordinator_set_coasting_data (Some coasting_data) (coord s)
                  in Some (ESP_OK, s\<lparr>hw := hw2, coord := c1,
                                      wl := (wl s)\<lparr>g_coasting_calibration_active := False\<rparr>\<rparr>))"

definition handle_forward_direction ::
    "64 word \<Rightarrow> (64 word \<times> hardware) list \<Rightarrow> system \<Rightarrow> (esp_err_t \<times> system) option" where
  "handle_forward_direction now polls s =
     (if \<not> g_speed_validated (wl s) \<and> g_current_test_speed (wl s) = 0
      then Some (ESP_OK, snd (start_speed_test now WIRE_LEARNING_START_SPEED_MS s))
      else if \<not> g_speed_validated (wl s)
      then let (valid, s1) = validate_current_speed now s
           in if valid then Some (ESP_OK, snd (progress_to_next_speed now s1))
              else let (detection, s2) = wire_learning_get_best_detection_method now s1
                   in if detection \<noteq> WIRE_END_NONE
                      then let rotations = hardware_get_rotation_count (hw s2) -
                                             direction_start_rotations (wl s2);
                               distance = hardware_rotations_to_distance rotations;
                               w3 = (wl s2)\<lparr>forward_rotations := rotations,
                                      forward_distance_m := distance,
                                      forward_time_ms :=
                                        ucast ((now - direction_start_time (wl s2)) div 1000),
                                      forward_end_method := detection\<rparr>;
                               s3 = s2\<lparr>wl := w3\<rparr>
                           in if distance < MIN_WIRE_LENGTH_M \<or> distance > MAX_WIRE_LENGTH_M
                              then Some (ESP_ERR_INVALID_SIZE,
                                         s3\<lparr>wl := w3\<lparr>wl_state := WIRE_LEARNING_FAILED\<rparr>\<rparr>)
                              else case (if g_current_test_speed w3 \<ge> 4
                                         then process_coasting_calibration now polls
                                                (snd (start_coasting_calibration now s3))
                                         else Some (ESP_OK, s3)) of
                                     None \<Rightarrow> None
                                   | Some (r, s4) \<Rightarrow>
                                       let hw5 = hardware_emergency_stop (hw s4);
                                           w5 = (wl s4)\<lparr>
                                              wl_state := WIRE_LEARNING_REVERSE_DIRECTION,
                                              current_direction_forward := False,
                                              direction_start_rotations :=
                                                hardware_get_rotation_count hw5,
                                              direction_start_time := now,
                                              g_current_test_speed := 0,
                                              g_speed_validated := False\<rparr>
                                       in Some (ESP_OK,
                                            s4\<lparr>hw := hw5, wl := wire_learning_reset_detection w5\<rparr>)
                      else Some (ESP_OK, s2)
      else Some (ESP_OK, s))"

definition handle_reverse_direction :: "64 word \<Rightarrow> system \<Rightarrow> esp_err_t \<times> system" where
  "handle_reverse_direction now s =
     (if \<not> g_speed_validated (wl s) \<and> g_current_test_speed (wl s) = 0
      then (ESP_OK, snd (start_speed_test now WIRE_LEARNING_START_SPEED_MS s))
      else if \<not> g_speed_validated (wl s)
      then let (valid, s1) = validate_current_speed now s
           in if valid then (ESP_OK, snd (progress_to_next_speed now s1))
              else let (detection, s2) = wire_learning_get_best_detection_method now s1
                   in if detection \<noteq> WIRE_END_NONE
                      then let rotations = hardware_get_rotation_count (hw s2) -
                                             direction_start_rotations (wl s2)
                           in (ESP_OK, s2\<lparr>wl := (wl s2)\<lparr>reverse_rotations := rotations,
                                 reverse_distance_m := hardware_rotations_to_distance rotations,
                                 reverse_time_ms :=
                                   ucast ((now - direction_start_time (wl s2)) div 1000),
                                 reverse_end_method := detection,
                                 wl_state := WIRE_LEARNING_CALCULATING_RESULTS\<rparr>\<rparr>)
                      else (ESP_OK, s2)
      else (ESP_OK, s))"

text \<open>
  \<open>calculate_final_results\<close>, every float operation rounded: the sum and its half, the
  difference (\<open>fabs\<close> is exact), the quotient and its product with \<open>100.0f\<close>, and the
  accuracy \<open>100.0f - percent\<close>. The comparison of the percentage with the tolerance is
  false when the float quotient is NaN or infinite (average length zero).
\<close>

definition calculate_final_results :: "64 word \<Rightarrow> system \<Rightarrow> esp_err_t \<times> system" where
  "calculate_final_results now s =
     (let w0 = wl s;
          average = f32 (f32 (forward_distance_m w0 + reverse_distance_m w0) / 2);
          difference = \<bar>f32 (forward_distance_m w0 - reverse_distance_m w0)\<bar>;
          percent = map_option (\<lambda>q. f32 (f32 q * 100)) (fdiv difference average);
          w1 = w0\<lparr>calculated_wire_length_m := average, length_difference_percent := percent\<rparr>;
          success = (case percent of None \<Rightarrow> False
                     | Some p \<Rightarrow> p \<le> WIRE_LENGTH_TOLERANCE_PERCENT)
      in if success
         then let results = (g_learning_results w1)\<lparr>
                     complete := True,
                     wire_length_m := calculated_wire_length_m w1,
                     optimal_learning_speed_ms := g_current_test_speed w1,
                     optimal_cruise_speed_ms :=
                       min (f32 (g_current_test_speed w1 * (15 / 10))) 5,
                     res_forward_rotations := forward_rotations w1,
                     res_reverse_rotations := reverse_rotations w1,
                     total_learning_time_ms :=
                       ucast ((now - learning_start_time w1) div 1000),
                     primary_detection_method := forward_end_method w1,
                     learning_accuracy_percent := f32 (100 - the percent)\<rparr>;
                  (r, c1) = mode_coordinator_set_wire_learning_results (Some results) (coord s);
                  w2 = w1\<lparr>g_learning_results := results, learning_successful := True,
                          wl_state := WIRE_LEARNING_COMPLETE\<rparr>
              in (ESP_OK, s\<lparr>hw := hardware_emergency_stop (hw s), coord := c1, wl := w2\<rparr>)
         else (ESP_FAIL, s\<lparr>hw := hardware_emergency_stop (hw s),
                            wl := w1\<lparr>learning_successful := False,
                                     wl_state := WIRE_LEARNING_FAILED\<rparr>\<rparr>))"

definition wire_learning_mode_init :: "wire_learning \<Rightarrow> esp_err_t \<times> wire_learning" where
  "wire_learning_mode_init w =
     (ESP_OK, (clear_learning_progress w)\<lparr>g_learning_results := wire_learning_results_zero,
                                        wl_state := WIRE_LEARNING_IDLE,
                                        g_learning_initialized := True\<rparr>)"

definition wire_learning_validate_prerequisites :: "system \<Rightarrow> esp_err_t" where
  "wire_learning_validate_prerequisites s =
     (if \<not> mode_coordinator_are_sensors_validated (coord s) then ESP_ERR_INVALID_STATE
      else if \<not> system_initialized (hw s) \<or> \<not> hall_sensor_healthy (hw s)
      then ESP_ERR_INVALID_STATE
      else if \<not> system_ready (sensor s) then ESP_ERR_INVALID_STATE
      else ESP_OK)"

definition wire_learning_mode_start :: "64 word \<Rightarrow> system \<Rightarrow> esp_err_t \<times> system" where
  "wire_learning_mode_start now s =
     (if \<not> g_learning_initialized (wl s) then (ESP_ERR_INVALID_STATE, s)
      else let result = wire_learning_validate_prerequisites s
           in if result \<noteq> ESP_OK then (result, s)
              else let w1 = (clear_learning_progress (wl s))\<lparr>
                              wl_state := WIRE_LEARNING_INITIALIZING,
                              learning_start_time := now,
                              current_direction_forward := True\<rparr>;
                       (armed, hw1) = (if \<not> hardware_esc_is_armed (hw s)
                                       then hardware_esc_arm (hw s) else (ESP_OK, hw s))
                   in if armed \<noteq> ESP_OK
                      then (armed, s\<lparr>hw := hw1, wl := w1\<lparr>wl_state := WIRE_LEARNING_FAILED\<rparr>\<rparr>)
                      else let hw2 = hardware_reset_rotation_count (hardware_reset_position hw1);
                               w2 = w1\<lparr>wl_state := WIRE_LEARNING_FORWARD_DIRECTION,
                                       direction_start_time := now,
                                       direction_start_rotations :=
                                         hardware_get_rotation_count hw2,
                                       g_current_test_speed := 0,
                                       g_speed_validated := False\<rparr>
                           in (ESP_OK, s\<lparr>hw := hw2, wl := wire_learning_reset_detection w2\<rparr>))"

definition wire_learning_mode_stop :: "bool \<Rightarrow> system \<Rightarrow> esp_err_t \<times> system" where
  "wire_learning_mode_stop immediate s =
     (ESP_OK, s\<lparr>hw := hardware_emergency_stop (hw s),
                wl := (wl s)\<lparr>wl_state := (if immediate then WIRE_LEARNING_IDLE
                                           else WIRE_LEARNING_STOPPING),
                             g_coasting_calibration_active := False\<rparr>\<rparr>)"

definition wire_learning_mode_update ::
    "64 word \<Rightarrow> (64 word \<times> hardware) list \<Rightarrow> system \<Rightarrow> (esp_err_t \<times> system) option" where
  "wire_learning_mode_update now polls s =
     (if \<not> g_learning_initialized (wl s) then Some (ESP_ERR_INVALID_STATE, s)
      else if wire_learning_state_value (wl_state (wl s)) >
                wire_learning_state_value WIRE_LEARNING_IDLE \<and>
              wire_learning_state_value (wl_state (wl s)) <
                wire_learning_state_value WIRE_LEARNING_COMPLETE \<and>
              now - learning_start_time (wl s) > WIRE_LEARNING_TIMEOUT_S * 1000000
      then Some (ESP_ERR_TIMEOUT,
                 s\<lparr>hw := hardware_emergency_stop (hw s),
                   wl := (wl s)\<lparr>wl_state := WIRE_LEARNING_FAILED\<rparr>\<rparr>)
      else case wl_state (wl s) of
             WIRE_LEARNING_IDLE \<Rightarrow> Some (ESP_OK, s)
           | WIRE_LEARNING_INITIALIZING \<Rightarrow>
               Some (ESP_OK, s\<lparr>wl := (wl s)\<lparr>wl_state := WIRE_LEARNING_FORWARD_DIRECTION\<rparr>\<rparr>)
           | WIRE_LEARNING_FORWARD_DIRECTION \<Rightarrow>
               map_option (\<lambda>(r, s'). (ESP_OK, s')) (handle_forward_direction now polls s)
           | WIRE_LEARNING_DIRECTION_PAUSE \<Rightarrow> Some (ESP_OK, s)
           | WIRE_LEARNING_REVERSE_DIRECTION \<Rightarrow>
               Some (ESP_OK, snd (handle_reverse_direction now s))
           | WIRE_LEARNING_CALCULATING_RESULTS \<Rightarrow>
               Some (ESP_OK, snd (calculate_final_results now s))
           | WIRE_LEARNING_COMPLETE \<Rightarrow> Some (ESP_OK, s)
           | WIRE_LEARNING_FAILED \<Rightarrow> Some (ESP_OK, s)
           | WIRE_LEARNING_STOPPING \<Rightarrow> Some (ESP_OK, s))"

definition wire_learning_mode_is_active :: "wire_learning \<Rightarrow> bool" where
  "wire_learning_mode_is_active w =
     (wire_learning_state_value (wl_state w) > wire_learning_state_value WIRE_LEARNING_IDLE \<and>
      wire_learning_state_value (wl_state w) < wire_learning_state_value WIRE_LEARNING_COMPLETE)"

definition wire_learning_emergency_stop :: "system \<Rightarrow> esp_err_t \<times> system" where
  "wire_learning_emergency_stop s =
     (ESP_OK, s\<lparr>hw := hardware_emergency_stop (hw s),
                wl := (wl s)\<lparr>wl_state := WIRE_LEARNING_FAILED,
                             g_coasting_calibration_active := False\<rparr>\<rparr>)"

definition wire_learning_mode_reset :: "system \<Rightarrow> esp_err_t \<times> system" where
  "wire_learning_mode_reset s =
     (let s1 = snd (wire_learning_mode_stop True s);
          w1 = (clear_learning_progress (wl s1))\<lparr>
                  g_learning_results := wire_learning_results_zero,
                  wl_state := WIRE_LEARNING_IDLE,
                  g_current_test_speed := 0, g_speed_validated := False,
                  g_coasting_calibration_active := False\<rparr>
      in (ESP_OK, s1\<lparr>wl := wire_learning_reset_detection w1\<rparr>))"


section \<open>automatic\_mode: the functions\<close>

definition automatic_mode_accelerate_to_speed ::
    "64 word \<Rightarrow> rat \<Rightarrow> system \<Rightarrow> esp_err_t \<times> system" where
  "automatic_mode_accelerate_to_speed now target_speed0 s =
     (let target_speed = (if target_speed0 > AUTO_MODE_MAX_SPEED_MS
                          then AUTO_MODE_MAX_SPEED_MS else target_speed0);
          a1 = (am s)\<lparr>g_current_acceleration_target := target_speed,
                       g_acceleration_start_time := now,
                       g_acceleration_start_rotations := hardware_get_rotation_count (hw s)\<rparr>;
          (result, hw1) = hardware_set_motor_speed AUTO_MODE_START_SPEED_MS
                            (cycle_direction_forward a1) (hw s)
      in if result \<noteq> ESP_OK then (result, s\<lparr>hw := hw1, am := a1\<rparr>)
         else (ESP_OK, s\<lparr>hw := hw1,
                          am := a1\<lparr>current_target_speed := AUTO_MODE_START_SPEED_MS,
                                   acceleration_rate := AUTO_MODE_ACCEL_RATE_MS2\<rparr>\<rparr>))"

definition automatic_mode_start_coasting_calibration ::
    "64 word \<Rightarrow> system \<Rightarrow> esp_err_t \<times> system" where
  "automatic_mode_start_coasting_calibration now s =
     (if cal_calibrated (coasting (am s)) then (ESP_OK, s)
      else let s1 = s\<lparr>am := (am s)\<lparr>auto_state := AUTO_MODE_COASTING_CALIBRATION,
                                      auto_state_start_time := now\<rparr>\<rparr>
           in automatic_mode_accelerate_to_speed now AUTO_COASTING_CALIBRATION_SPEED s1)"

definition automatic_mode_update_coasting_calibration ::
    "64 word \<Rightarrow> rat \<Rightarrow> rat \<Rightarrow> system \<Rightarrow> esp_err_t \<times> system" where
  "automatic_mode_update_coasting_calibration now speed position s =
     (if speed < AUTO_COASTING_CALIBRATION_SPEED - 2 / 10 then (ESP_OK, s)
      else if \<not> calibration_motor_stopped (am s)
      then let (r, hw1) = hardware_set_motor_speed 0 (cycle_direction_forward (am s)) (hw s)
           in (ESP_OK, s\<lparr>hw := hw1,
                 am := (am s)\<lparr>auto_coasting_start_time := now,
                    auto_coasting_start_rotations := hardware_get_rotation_count hw1,
                    auto_coasting_start_speed := speed,
                    calibration_motor_stopped := True\<rparr>\<rparr>)
      else if speed > COAST_DETECTION_SPEED_MS then (ESP_OK, s)
      else let coast_end_rotations = hardware_get_rotation_count (hw s);
               rotations = coast_end_rotations - auto_coasting_start_rotations (am s);
               time_ms = (ucast ((now - auto_coasting_start_time (am s)) div 1000) :: 32 word);
               distance = hardware_rotations_to_distance rotations;
               cal = \<lparr> cal_calibrated = True,
                       calibration_speed_ms = auto_coasting_start_speed (am s),
                       cal_coasting_distance_m = distance,
                       coasting_time_ms = time_ms,
                       deceleration_rate_ms2 = fdiv (auto_coasting_start_speed (am s))
                                                    (of_nat (unat time_ms) / 1000),
                       cal_coast_start_distance_m = distance + AUTO_COASTING_SAFETY_MARGIN_M,
                       calibration_rotations = rotations,
                       calibration_successful = True \<rparr>
           in if distance < AUTO_COASTING_MIN_DISTANCE_M \<or> distance > AUTO_COASTING_MAX_DISTANCE_M
              then (ESP_ERR_INVALID_SIZE,
                    s\<lparr>am := (am s)\<lparr>coasting := cal\<lparr>calibration_successful := False\<rparr>\<rparr>\<rparr>)
              else let coasting_data = \<lparr> calibrated = True,
                          coasting_distance_m = cal_coasting_distance_m cal,
                          coast_start_distance_m = cal_coast_start_distance_m cal,
                          coast_time_ms = coasting_time_ms cal,
                          decel_rate_ms2 = deceleration_rate_ms2 cal \<rparr>;
                       (r, c1) = mode_coordinator_set_coasting_data (Some coasting_data) (coord s)
                   in (ESP_OK, s\<lparr>coord := c1,
                         am := (am s)\<lparr>coasting := cal, calibration_motor_stopped := False\<rparr>\<rparr>))"

definition automatic_mode_maintain_cruise_speed :: "system \<Rightarrow> esp_err_t \<times> system" where
  "automatic_mode_maintain_cruise_speed s =
     (let current_speed = hardware_get_current_speed (hw s);
          target_speed = AUTO_MODE_MAX_SPEED_MS;
          hw1 = (if \<bar>current_speed - target_speed\<bar> > 1 / 2
                 then snd (hardware_set_motor_speed target_speed
                             (cycle_direction_forward (am s)) (hw s))
                 else hw s)
      in (ESP_OK, s\<lparr>hw := hw1, am := (am s)\<lparr>current_target_speed := target_speed\<rparr>\<rparr>))"

definition automatic_mode_is_at_wire_end :: "64 word \<Rightarrow> system \<Rightarrow> bool" where
  "automatic_mode_is_at_wire_end now s =
     (if total_accel_g (sensor s) > AUTO_MODE_MAX_IMPACT_G then True
      else if hardware_get_time_since_last_hall_pulse now (hw s) > 2000000 then True
      else if current_target_speed (am s) > 1 / 2 \<and>
              hardware_get_current_speed (hw s) < 2 / 10 then True
      else False)"

definition automatic_mode_handle_wire_end_reached :: "system \<Rightarrow> esp_err_t \<times> system" where
  "automatic_mode_handle_wire_end_reached s =
     (ESP_OK, s\<lparr>hw := snd (hardware_set_motor_speed 0 (cycle_direction_forward (am s)) (hw s))\<rparr>)"

definition handle_coasting_state :: "64 word \<Rightarrow> system \<Rightarrow> esp_err_t \<times> system" where
  "handle_coasting_state now s =
     (let current_speed = hardware_get_current_speed (hw s)
      in if automatic_mode_is_at_wire_end now s \<or> current_speed < COAST_DETECTION_SPEED_MS
         then let a1 = (am s)\<lparr>g_coasting_in_progress := False,
                               auto_state := AUTO_MODE_WIRE_END_APPROACH\<rparr>;
                  hw1 = snd (hardware_set_motor_speed AUTO_MODE_WIRE_END_APPROACH_MS
                               (cycle_direction_forward a1) (hw s))
              in (ESP_OK, snd (automatic_mode_handle_wire_end_reached (s\<lparr>hw := hw1, am := a1\<rparr>)))
         else (ESP_OK, s))"

text \<open>\<open>automatic_mode_init\<close> zeroes \<open>g_auto_progress\<close>; the other statics keep their values.\<close>

definition automatic_mode_init :: "automatic_mode \<Rightarrow> esp_err_t \<times> automatic_mode" where
  "automatic_mode_init a =
     (ESP_OK, a\<lparr>auto_state := AUTO_MODE_IDLE, auto_state_start_time := 0,
                auto_mode_start_time := 0, current_target_speed := 0, acceleration_rate := 0,
                esc_auto_armed := False, coasting := coasting_calibration_zero,
                cycle_direction_forward := False, user_interrupted := False,
                finishing_current_run := False, auto_wire_length_m := 0,
                auto_current_position_m := 0, g_auto_initialized := True\<rparr>)"

definition automatic_mode_validate_prerequisites :: "system \<Rightarrow> esp_err_t" where
  "automatic_mode_validate_prerequisites s =
     (if \<not> mode_coordinator_are_sensors_validated (coord s) then ESP_ERR_INVALID_STATE
      else case mode_coordinator_get_wire_learning_results (coord s) of
             None \<Rightarrow> ESP_ERR_INVALID_STATE
           | Some wire_data \<Rightarrow>
               if \<not> complete wire_data then ESP_ERR_INVALID_STATE
               else if wire_length_m wire_data < AUTO_MODE_MIN_WIRE_LENGTH_M
               then ESP_ERR_INVALID_SIZE
               else ESP_OK)"

definition automatic_mode_auto_arm_esc :: "system \<Rightarrow> esp_err_t \<times> system" where
  "automatic_mode_auto_arm_esc s =
     (if hardware_esc_is_armed (hw s)
      then (ESP_OK, s\<lparr>am := (am s)\<lparr>esc_auto_armed := True\<rparr>\<rparr>)
      else let (result, hw1) = hardware_esc_arm (hw s)
           in if result = ESP_OK
              then (result, s\<lparr>hw := hw1, am := (am s)\<lparr>esc_auto_armed := True\<rparr>\<rparr>)
              else (result, s\<lparr>hw := hw1\<rparr>))"

definition automatic_mode_auto_disarm_esc :: "system \<Rightarrow> esp_err_t \<times> system" where
  "automatic_mode_auto_disarm_esc s =
     (let (result, hw1) = hardware_esc_disarm (hw s)
      in (result, s\<lparr>hw := hw1, am := (am s)\<lparr>esc_auto_armed := False\<rparr>\<rparr>))"

definition automatic_mode_start :: "64 word \<Rightarrow> system \<Rightarrow> esp_err_t \<times> system" where
  "automatic_mode_start now s =
     (if \<not> g_auto_initialized (am s) then (ESP_ERR_INVALID_STATE, s)
      else let result = automatic_mode_validate_prerequisites s
           in if result \<noteq> ESP_OK then (result, s)
              else case mode_coordinator_get_wire_learning_results (coord s) of
                     None \<Rightarrow> (ESP_ERR_INVALID_STATE, s)
                   | Some wire_data \<Rightarrow>
                       if \<not> complete wire_data then (ESP_ERR_INVALID_STATE, s)
                       else let a1 = (am s)\<lparr>auto_state := AUTO_MODE_ARMING_ESC,
                                       auto_mode_start_time := now,
                                       auto_wire_length_m := wire_length_m wire_data,
                                       user_interrupted := False,
                                       finishing_current_run := False,
                                       g_user_interruption_requested := False\<rparr>;
                                (armed, s1) = automatic_mode_auto_arm_esc (s\<lparr>am := a1\<rparr>)
                            in if armed \<noteq> ESP_OK
                               then (armed, s1\<lparr>am := (am s1)\<lparr>auto_state := AUTO_MODE_ERROR\<rparr>\<rparr>)
                               else (ESP_OK, s1))"

definition automatic_mode_stop_graceful :: "64 word \<Rightarrow> system \<Rightarrow> esp_err_t \<times> system" where
  "automatic_mode_stop_graceful now s =
     (ESP_OK, s\<lparr>am := (am s)\<lparr>g_user_interruption_requested := True,
                             g_interruption_request_time := now,
                             finishing_current_run := True\<rparr>\<rparr>)"

definition automatic_mode_interrupt :: "system \<Rightarrow> esp_err_t \<times> system" where
  "automatic_mode_interrupt s =
     (let s1 = s\<lparr>hw := hardware_emergency_stop (hw s),
                 am := (am s)\<lparr>auto_state := AUTO_MODE_STOPPING_INTERRUPTED,
                              user_interrupted := True,
                              finishing_current_run := False,
                              g_user_interruption_requested := True\<rparr>\<rparr>
      in (ESP_OK, snd (automatic_mode_auto_disarm_esc s1)))"

definition automatic_mode_update :: "64 word \<Rightarrow> system \<Rightarrow> esp_err_t \<times> system" where
  "automatic_mode_update now s =
     (if \<not> g_auto_initialized (am s) \<or> auto_state (am s) = AUTO_MODE_IDLE then (ESP_OK, s)
      else if auto_state (am s) = AUTO_MODE_COASTING
      then (ESP_OK, snd (handle_coasting_state now s))
      else if auto_state (am s) = AUTO_MODE_COASTING_CALIBRATION
      then (ESP_OK, snd (automatic_mode_update_coasting_calibration now
                           (hardware_get_current_speed (hw s))
                           (auto_current_position_m (am s)) s))
      else (ESP_OK, s))"

definition automatic_mode_is_active :: "automatic_mode \<Rightarrow> bool" where
  "automatic_mode_is_active a =
     (automatic_mode_state_value (auto_state a) > automatic_mode_state_value AUTO_MODE_IDLE \<and>
      automatic_mode_state_value (auto_state a) < automatic_mode_state_value AUTO_MODE_COMPLETE)"

section \<open>manual\_mode: starting, stopping and speed commands\<close>

definition manual_mode_is_active :: "manual_mode \<Rightarrow> bool" where
  "manual_mode_is_active m =
     (manual_mode_state_value (man_state m) > manual_mode_state_value MANUAL_MODE_IDLE \<and>
      manual_mode_state_value (man_state m) < manual_mode_state_value MANUAL_MODE_EMERGENCY_STOP)"

definition manual_mode_is_speed_safe :: "rat \<Rightarrow> manual_mode \<Rightarrow> bool" where
  "manual_mode_is_speed_safe speed_ms m =
     (if speed_ms < 0 \<or> speed_ms > MANUAL_MODE_MAX_SPEED_MS then False
      else if \<bar>speed_ms - man_current_speed_ms m\<bar> > 1 then False
      else True)"

definition manual_mode_set_speed :: "rat \<Rightarrow> bool \<Rightarrow> system \<Rightarrow> esp_err_t \<times> system" where
  "manual_mode_set_speed speed_ms forward s =
     (if \<not> manual_mode_is_active (mm s) then (ESP_ERR_INVALID_STATE, s)
      else if \<not> manual_mode_is_speed_safe speed_ms (mm s) then (ESP_ERR_INVALID_ARG, s)
      else if \<not> man_esc_armed (mm s) \<and> speed_ms > 0 then (ESP_ERR_INVALID_STATE, s)
      else let m1 = (mm s)\<lparr>man_target_speed_ms := speed_ms,
                            man_direction_forward := forward,
                            motor_active := (speed_ms > MANUAL_MODE_MIN_SPEED_MS)\<rparr>;
               m2 = (if speed_ms > max_speed_used m1
                     then m1\<lparr>max_speed_used := speed_ms\<rparr> else m1);
               m3 = (if speed_ms > max_speed_reached m2
                     then m2\<lparr>max_speed_reached := speed_ms\<rparr> else m2);
               (result, hw1) = hardware_set_motor_speed speed_ms forward (hw s)
           in if result \<noteq> ESP_OK then (result, s\<lparr>hw := hw1, mm := m3\<rparr>)
              else (ESP_OK, s\<lparr>hw := hw1,
                      mm := m3\<lparr>man_state :=
                        (if speed_ms > MANUAL_MODE_MIN_SPEED_MS
                         then if forward then MANUAL_MODE_MOVING_FORWARD
                              else MANUAL_MODE_MOVING_BACKWARD
                         else MANUAL_MODE_ACTIVE)\<rparr>\<rparr>))"

definition manual_mode_stop_movement :: "system \<Rightarrow> esp_err_t \<times> system" where
  "manual_mode_stop_movement s =
     (let (result, s1) = manual_mode_set_speed 0 (man_direction_forward (mm s)) s
      in if result = ESP_OK
         then (result, s1\<lparr>mm := (mm s1)\<lparr>man_state := MANUAL_MODE_ACTIVE\<rparr>\<rparr>)
         else (result, s1))"

definition manual_mode_arm_esc :: "64 word \<Rightarrow> system \<Rightarrow> esp_err_t \<times> system" where
  "manual_mode_arm_esc now s =
     (if \<not> manual_mode_is_active (mm s) then (ESP_ERR_INVALID_STATE, s)
      else if man_esc_armed (mm s) then (ESP_OK, s)
      else let (result, hw1) = hardware_esc_arm (hw s)
           in if result = ESP_OK
              then (result, s\<lparr>hw := hw1,
                      mm := (mm s)\<lparr>man_esc_armed := True, man_esc_responding := True,
                                   esc_arm_time := now, man_state := MANUAL_MODE_ACTIVE\<rparr>\<rparr>)
              else (result, s\<lparr>hw := hw1, mm := (mm s)\<lparr>man_state := MANUAL_MODE_ERROR\<rparr>\<rparr>))"

definition manual_mode_disarm_esc :: "system \<Rightarrow> esp_err_t \<times> system" where
  "manual_mode_disarm_esc s =
     (let s1 = snd (manual_mode_stop_movement s);
          (result, hw1) = hardware_esc_disarm (hw s1)
      in (result, s1\<lparr>hw := hw1,
            mm := (mm s1)\<lparr>man_esc_armed := False, man_esc_responding := False,
                          motor_active := False, man_target_speed_ms := 0,
                          man_state := MANUAL_MODE_READY\<rparr>\<rparr>))"

definition manual_mode_init :: "manual_mode \<Rightarrow> esp_err_t \<times> manual_mode" where
  "manual_mode_init m =
     (ESP_OK, m\<lparr>man_state := MANUAL_MODE_IDLE, g_manual_initialized := True\<rparr>)"

definition manual_mode_start :: "64 word \<Rightarrow> system \<Rightarrow> esp_err_t \<times> system" where
  "manual_mode_start now s =
     (if \<not> g_manual_initialized (mm s) then (ESP_ERR_INVALID_STATE, s)
      else if \<not> mode_coordinator_are_sensors_validated (coord s) then (ESP_ERR_INVALID_STATE, s)
      else (ESP_OK,
            s\<lparr>hw := hardware_reset_position (hw s),
              mm := (mm s)\<lparr>total_commands_executed := 0, max_speed_used := 0,
                           total_distance_traveled_m := 0, session_duration_ms := 0,
                           motor_active_time_ms := 0, average_speed := 0,
                           man_state := MANUAL_MODE_READY, man_mode_start_time := now,
                           man_esc_armed := False, motor_active := False,
                           man_target_speed_ms := 0, man_current_speed_ms := 0,
                           man_direction_forward := True, command_count := 0,
                           man_error_count := 0\<rparr>\<rparr>))"

definition manual_mode_stop :: "64 word \<Rightarrow> system \<Rightarrow> esp_err_t \<times> system" where
  "manual_mode_stop now s =
     (let s1 = snd (manual_mode_stop_movement s);
          s2 = (if man_esc_armed (mm s1) then snd (manual_mode_disarm_esc s1) else s1);
          m3 = (mm s2)\<lparr>session_duration_ms :=
                          ucast ((now - man_mode_start_time (mm s2)) div 1000),
                        total_commands_executed := command_count (mm s2)\<rparr>;
          m4 = (if motor_active_time_ms m3 > 0
                then m3\<lparr>average_speed := total_distance_traveled_m m3 /
                           (of_nat (unat (motor_active_time_ms m3)) / 1000)\<rparr>
                else m3)
      in (ESP_OK, s2\<lparr>mm := m4\<lparr>man_state := MANUAL_MODE_IDLE\<rparr>\<rparr>))"


section \<open>mode\_coordinator: arbitration\<close>

definition update_mode_availability :: "system \<Rightarrow> system" where
  "update_mode_availability s =
     (let c = coord s;
          c1 = c\<lparr>wire_learning_availability :=
                   (if \<not> sensors_validated c then MODE_BLOCKED_SENSORS_NOT_VALIDATED
                    else if wire_learning_mode_is_active (wl s) then MODE_ACTIVE
                    else if \<not> system_healthy c then MODE_BLOCKED_SYSTEM_ERROR
                    else MODE_AVAILABLE)\<rparr>;
          c2 = c1\<lparr>automatic_availability :=
                   (if \<not> sensors_validated c1 then MODE_BLOCKED_SENSORS_NOT_VALIDATED
                    else if \<not> complete (g_wire_learning_data c1)
                    then MODE_BLOCKED_WIRE_LEARNING_REQUIRED
                    else if automatic_mode_is_active (am s) then MODE_ACTIVE
                    else if \<not> system_healthy c1 then MODE_BLOCKED_SYSTEM_ERROR
                    else MODE_AVAILABLE)\<rparr>;
          c3 = c2\<lparr>manual_availability :=
                   (if \<not> sensors_validated c2 then MODE_BLOCKED_SENSORS_NOT_VALIDATED
                    else if manual_mode_is_active (mm s) then MODE_ACTIVE
                    else if \<not> system_healthy c2 then MODE_BLOCKED_SYSTEM_ERROR
                    else MODE_AVAILABLE)\<rparr>
      in s\<lparr>coord := c3\<rparr>)"

definition update_current_mode_status :: "system \<Rightarrow> system" where
  "update_current_mode_status s =
     s\<lparr>coord := (coord s)\<lparr>current_mode :=
         (if wire_learning_mode_is_active (wl s) then TROLLEY_MODE_WIRE_LEARNING
          else if automatic_mode_is_active (am s) then TROLLEY_MODE_AUTOMATIC
          else if manual_mode_is_active (mm s) then TROLLEY_MODE_MANUAL
          else TROLLEY_MODE_NONE)\<rparr>\<rparr>"

definition mode_coordinator_update :: "64 word \<Rightarrow> system \<Rightarrow> esp_err_t \<times> system" where
  "mode_coordinator_update now s =
     (if \<not> g_coordinator_initialized (coord s) then (ESP_ERR_INVALID_STATE, s)
      else let s1 = s\<lparr>coord := update_sensor_validation_state (sensor s) now (coord s)\<rparr>;
               s2 = update_mode_availability s1;
               s3 = update_current_mode_status s2;
               c4 = (coord s3)\<lparr>system_healthy :=
                       (system_initialized (hw s3) \<and> system_ready (sensor s3) \<and>
                        g_error_count (coord s3) < MAX_SYSTEM_ERRORS)\<rparr>;
               c5 = (if g_error_count c4 > 0 \<and>
                        now - g_last_error_reset_time c4 > ERROR_RESET_TIME_MS * 1000
                     then c4\<lparr>g_error_count := 0\<rparr> else c4)
           in (ESP_OK, s3\<lparr>coord := c5\<rparr>))"

definition mode_coordinator_reset_sensor_validation :: "system \<Rightarrow> esp_err_t \<times> system" where
  "mode_coordinator_reset_sensor_validation s =
     (ESP_OK, s\<lparr>coord := (coord s)\<lparr>sensor_validation_state := SENSOR_VALIDATION_NOT_STARTED,
                                   g_hall_validation_user_confirmed := False,
                                   g_accel_validation_user_confirmed := False,
                                   sensors_validated := False,
                                   hall_validation_complete := False,
                                   accel_validation_complete := False\<rparr>,
                sensor := sensor_health_reset_validation (sensor s)\<rparr>)"

definition mode_coordinator_stop_current_mode ::
    "bool \<Rightarrow> 64 word \<Rightarrow> system \<Rightarrow> esp_err_t \<times> system" where
  "mode_coordinator_stop_current_mode immediate now s =
     (let s1 = (case current_mode (coord s) of
                  TROLLEY_MODE_WIRE_LEARNING \<Rightarrow> snd (wire_learning_mode_stop immediate s)
                | TROLLEY_MODE_AUTOMATIC \<Rightarrow>
                    if immediate then snd (automatic_mode_interrupt s)
                    else snd (automatic_mode_stop_graceful now s)
                | TROLLEY_MODE_MANUAL \<Rightarrow> snd (manual_mode_stop now s)
                | TROLLEY_MODE_NONE \<Rightarrow> s)
      in (ESP_OK, s1\<lparr>coord := (coord s1)\<lparr>previous_mode := current_mode (coord s1),
                                         current_mode := TROLLEY_MODE_NONE\<rparr>\<rparr>))"

definition mode_coordinator_activate_wire_learning ::
    "64 word \<Rightarrow> system \<Rightarrow> esp_err_t \<times> system" where
  "mode_coordinator_activate_wire_learning now s =
     (if \<not> mode_coordinator_is_mode_available TROLLEY_MODE_WIRE_LEARNING (coord s)
      then (ESP_ERR_INVALID_STATE, s)
      else let s1 = snd (mode_coordinator_stop_current_mode True now s);
               (result, s2) = wire_learning_mode_start now s1
           in if result = ESP_OK
              then (result, s2\<lparr>coord := (coord s2)\<lparr>mode_start_time := now\<rparr>\<rparr>)
              else (result, s2))"

definition mode_coordinator_activate_automatic ::
    "64 word \<Rightarrow> system \<Rightarrow> esp_err_t \<times> system" where
  "mode_coordinator_activate_automatic now s =
     (if \<not> mode_coordinator_is_mode_available TROLLEY_MODE_AUTOMATIC (coord s)
      then (ESP_ERR_INVALID_STATE, s)
      else let s1 = snd (mode_coordinator_stop_current_mode True now s);
               (result, s2) = automatic_mode_start now s1
           in if result = ESP_OK
              then (result, s2\<lparr>coord := (coord s2)\<lparr>mode_start_time := now\<rparr>\<rparr>)
              else (result, s2))"

definition mode_coordinator_activate_manual ::
    "64 word \<Rightarrow> system \<Rightarrow> esp_err_t \<times> system" where
  "mode_coordinator_activate_manual now s =
     (if \<not> mode_coordinator_is_mode_available TROLLEY_MODE_MANUAL (coord s)
      then (ESP_ERR_INVALID_STATE, s)
      else let s1 = snd (mode_coordinator_stop_current_mode True now s);
               (result, s2) = manual_mode_start now s1
           in if result = ESP_OK
              then (result, s2\<lparr>coord := (coord s2)\<lparr>mode_start_time := now\<rparr>\<rparr>)
              else (result, s2))"

definition mode_coordinator_emergency_stop :: "64 word \<Rightarrow> system \<Rightarrow> esp_err_t \<times> system" where
  "mode_coordinator_emergency_stop now s =
     (let s1 = s\<lparr>hw := hardware_emergency_stop (hw s)\<rparr>;
          s2 = snd (wire_learning_mode_stop True s1);
          s3 = snd (automatic_mode_interrupt s2);
          s4 = snd (manual_mode_stop now s3)
      in (ESP_OK, s4\<lparr>coord := (coord s4)\<lparr>current_mode := TROLLEY_MODE_NONE\<rparr>\<rparr>))"

section \<open>Sequences of calls\<close>

text \<open>
  The calls of the sensor validation handshake, as the command handler and the update
  task make them. An update carries the sensor snapshot and the clock it reads.
\<close>

datatype validation_call =
    StartValidation "64 word"
  | ConfirmHall
  | ConfirmAccel
  | UpdateValidation sensor_health_t "64 word"

fun validation_step :: "validation_call \<Rightarrow> coordinator \<Rightarrow> coordinator" where
  "validation_step (StartValidation now) c = snd (mode_coordinator_start_sensor_validation now c)"
| "validation_step ConfirmHall c = snd (mode_coordinator_confirm_hall_validation c)"
| "validation_step ConfirmAccel c = snd (mode_coordinator_confirm_accel_validation c)"
| "validation_step (UpdateValidation sh now) c = update_sensor_validation_state sh now c"

definition validation_run :: "validation_call list \<Rightarrow> coordinator \<Rightarrow> coordinator" where
  "validation_run calls c = fold validation_step calls c"

text \<open>
  Calls on the whole system: the initialisation sequence of \<open>init_system_components\<close>,
  what the sensor and Hall tasks deliver, the coordinator's update and its commands.
\<close>

datatype system_call =
    InitComponents "wire_learning_results_t option"
  | SensorStatus sensor_health_t
  | HallPulse "64 word"
  | EscUpdate "64 word"
  | CoordinatorUpdate "64 word"
  | StartSensorValidation "64 word"
  | ConfirmHallValidation
  | ConfirmAccelValidation
  | ActivateWireLearning "64 word"
  | ActivateAutomatic "64 word"
  | ActivateManual "64 word"
  | EmergencyStop "64 word"
  | AutomaticUpdate "64 word"

fun system_step :: "system_call \<Rightarrow> system \<Rightarrow> system" where
  "system_step (InitComponents stored_wire) s =
     s\<lparr>hw := snd (hardware_init True (hw s)),
       wl := snd (wire_learning_mode_init (wl s)),
       am := snd (automatic_mode_init (am s)),
       mm := snd (manual_mode_init (mm s)),
       coord := snd (mode_coordinator_init stored_wire None (coord s))\<rparr>"
| "system_step (SensorStatus sh) s = s\<lparr>sensor := sh\<rparr>"
| "system_step (HallPulse t) s = s\<lparr>hw := hall_processing_step t (hw s)\<rparr>"
| "system_step (EscUpdate now) s = s\<lparr>hw := esc_update_step now (hw s)\<rparr>"
| "system_step (CoordinatorUpdate now) s = snd (mode_coordinator_update now s)"
| "system_step (StartSensorValidation now) s =
     s\<lparr>coord := snd (mode_coordinator_start_sensor_validation now (coord s))\<rparr>"
| "system_step ConfirmHallValidation s =
     s\<lparr>coord := snd (mode_coordinator_confirm_hall_validation (coord s))\<rparr>"
| "system_step ConfirmAccelValidation s =
     s\<lparr>coord := snd (mode_coordinator_confirm_accel_validation (coord s))\<rparr>"
| "system_step (ActivateWireLearning now) s = snd (mode_coordinator_activate_wire_learning now s)"
| "system_step (ActivateAutomatic now) s = snd (mode_coordinator_activate_automatic now s)"
| "system_step (ActivateManual now) s = snd (mode_coordinator_activate_manual now s)"
| "system_step (EmergencyStop now) s = snd (mode_coordinator_emergency_stop now s)"
| "system_step (AutomaticUpdate now) s = snd (automatic_mode_update now s)"

definition system_run :: "system_call list \<Rightarrow> system \<Rightarrow> system" where
  "system_run calls s = fold system_step calls s"

text \<open>The number of mode engines that report themselves active.\<close>

definition active_engines :: "system \<Rightarrow> nat" where
  "active_engines s =
     (if wire_learning_mode_is_active (wl s) then 1 else 0) +
     (if automatic_mode_is_active (am s) then 1 else 0) +
     (if manual_mode_is_active (mm s) then 1 else 0)"

text \<open>
  Calls on the wire learning engine, with what its surroundings may do between two of
  them: the background tasks rewrite the hardware status, the sensor task the snapshot,
  and the coordinator its \<open>sensors_validated\<close> flag (the three things the engine reads).
  A run ends in \<open>None\<close> when a coasting wait is not covered by its observations.
\<close>

datatype wire_learning_call =
    WlInit
  | WlStart "64 word"
  | WlStop bool
  | WlUpdate "64 word" "(64 word \<times> hardware) list"
  | WlEmergencyStop
  | WlReset
  | Surroundings hardware sensor_health_t bool

fun wire_learning_step :: "wire_learning_call \<Rightarrow> system \<Rightarrow> system option" where
  "wire_learning_step WlInit s = Some (s\<lparr>wl := snd (wire_learning_mode_init (wl s))\<rparr>)"
| "wire_learning_step (WlStart now) s = Some (snd (wire_learning_mode_start now s))"
| "wire_learning_step (WlStop immediate) s = Some (snd (wire_learning_mode_stop immediate s))"
| "wire_learning_step (WlUpdate now polls) s =
     map_option snd (wire_learning_mode_update now polls s)"
| "wire_learning_step WlEmergencyStop s = Some (snd (wire_learning_emergency_stop s))"
| "wire_learning_step WlReset s = Some (snd (wire_learning_mode_reset s))"
| "wire_learning_step (Surroundings h sh validated) s =
     Some (s\<lparr>hw := h, sensor := sh, coord := (coord s)\<lparr>sensors_validated := validated\<rparr>\<rparr>)"

fun wire_learning_run :: "wire_learning_call list \<Rightarrow> system \<Rightarrow> system option" where
  "wire_learning_run [] s = Some s"
| "wire_learning_run (c # cs) s =
     (case wire_learning_step c s of None \<Rightarrow> None | Some s' \<Rightarrow> wire_learning_run cs s')"

section \<open>Predicates and concrete inputs of the properties below\<close>

text \<open>The motor is commanded to stand still: target speed 0 and neutral duty.\<close>

definition motor_stopped :: "hardware \<Rightarrow> bool" where
  "motor_stopped h =
     (target_speed_ms h = 0 \<and> current_esc_duty h = ESC_NEUTRAL_DUTY \<and>
      ledc_duty h = ESC_NEUTRAL_DUTY)"

text \<open>
  Wire learning is below the trigger of its coasting side-measurement, has not begun one,
  and the coordinator holds no coasting data.
\<close>

definition below_coasting_trigger :: "system \<Rightarrow> bool" where
  "below_coasting_trigger s =
     (g_current_test_speed (wl s) \<le> WIRE_LEARNING_MAX_SPEED_MS \<and>
      \<not> g_coasting_calibration_active (wl s) \<and>
      g_coasting_data (coord s) = coasting_data_zero)"

text \<open>Some update of the sequence saw the wheel rotation detected.\<close>

definition wheel_seen :: "validation_call list \<Rightarrow> bool" where
  "wheel_seen calls = (\<exists>sh t. UpdateValidation sh t \<in> set calls \<and> wheel_rotation_detected sh)"

text \<open>What the validation state of the coordinator says about the calls made so far.\<close>

definition handshake_inv :: "validation_call list \<Rightarrow> coordinator \<Rightarrow> bool" where
  "handshake_inv calls c =
     ((sensors_validated c \<longrightarrow> sensor_validation_state c = SENSOR_VALIDATION_COMPLETE) \<and>
      (sensor_validation_state c = SENSOR_VALIDATION_COMPLETE \<longrightarrow>
         g_hall_validation_user_confirmed c \<and> g_accel_validation_user_confirmed c \<and>
         wheel_seen calls) \<and>
      (sensor_validation_state c = SENSOR_VALIDATION_ACCEL_PENDING \<longrightarrow>
         g_hall_validation_user_confirmed c \<and> wheel_seen calls) \<and>
      (sensor_validation_state c = SENSOR_VALIDATION_HALL_PENDING \<longrightarrow> wheel_seen calls) \<and>
      (g_hall_validation_user_confirmed c \<longrightarrow> ConfirmHall \<in> set calls) \<and>
      (g_accel_validation_user_confirmed c \<longrightarrow> ConfirmAccel \<in> set calls))"

definition hardware_ready :: hardware where
  "hardware_ready = snd (hardware_init True hardware_boot)"

definition hardware_stalled :: hardware where
  "hardware_stalled = hardware_ready\<lparr>esc_armed := True, target_speed_ms := 1,
     current_speed_ms := 9 / 10, last_hall_time := 1000000, hall_sensor_healthy := True\<rparr>"

text \<open>The sensor snapshot while the wheel has been rotated and the chassis never shaken.\<close>

definition sensor_wheel_only :: sensor_health_t where
  "sensor_wheel_only = \<lparr> wheel_rotation_detected = True, trolley_shake_detected = False,
     total_accel_g = 0, system_ready = False \<rparr>"

text \<open>The snapshot after both detections, at rest, and the same with an impact of 1.5 g.\<close>

definition sensor_all_ok :: sensor_health_t where
  "sensor_all_ok = \<lparr> wheel_rotation_detected = True, trolley_shake_detected = True,
     total_accel_g = 0, system_ready = True \<rparr>"

definition sensor_impact :: sensor_health_t where
  "sensor_impact = sensor_all_ok\<lparr>total_accel_g := 3 / 2\<rparr>"

definition validation_without_shake :: "validation_call list" where
  "validation_without_shake =
     [StartValidation 2000000,
      UpdateValidation sensor_wheel_only 2050000,
      ConfirmHall,
      UpdateValidation sensor_wheel_only 2100000,
      ConfirmAccel,
      UpdateValidation sensor_wheel_only 2150000]"

text \<open>
  A boot that finds a completed wire learning result of 10 m in storage, passes the sensor
  validation, activates the automatic mode and runs one coordinator update.
\<close>

definition stored_wire_learning :: wire_learning_results_t where
  "stored_wire_learning = wire_learning_results_zero\<lparr>complete := True, wire_length_m := 10\<rparr>"

definition boot_to_automatic :: "system_call list" where
  "boot_to_automatic =
     [InitComponents (Some stored_wire_learning),
      SensorStatus sensor_all_ok,
      HallPulse 1000000,
      StartSensorValidation 2000000,
      CoordinatorUpdate 2050000,
      ConfirmHallValidation,
      CoordinatorUpdate 2100000,
      ConfirmAccelValidation,
      CoordinatorUpdate 2150000,
      CoordinatorUpdate 2200000,
      ActivateAutomatic 2210000,
      CoordinatorUpdate 2250000]"

definition automatic_running :: system where
  "automatic_running = system_run boot_to_automatic system_boot"

text \<open>The same boot with nothing in storage, up to the update that makes the modes available.\<close>

definition boot_to_available :: "system_call list" where
  "boot_to_available =
     [InitComponents None,
      SensorStatus sensor_all_ok,
      HallPulse 1000000,
      StartSensorValidation 2000000,
      CoordinatorUpdate 2050000,
      ConfirmHallValidation,
      CoordinatorUpdate 2100000,
      ConfirmAccelValidation,
      CoordinatorUpdate 2150000,
      CoordinatorUpdate 2200000]"

text \<open>A single observation of a Hall gap of three seconds, nothing else unusual.\<close>

definition hall_gap_state :: system where
  "hall_gap_state = system_boot\<lparr>hw := hardware_ready\<lparr>last_hall_time := 1000000\<rparr>\<rparr>"

text \<open>The same gap together with an impact of 1.5 g.\<close>

definition impact_state :: system where
  "impact_state = hall_gap_state\<lparr>sensor := sensor_impact\<rparr>"

text \<open>Wire learning about to calculate its results from two measured distances.\<close>

definition learning_measured :: "rat \<Rightarrow> rat \<Rightarrow> system" where
  "learning_measured forward reverse =
     system_boot\<lparr>wl := wire_learning_boot\<lparr>wl_state := WIRE_LEARNING_CALCULATING_RESULTS,
                      forward_distance_m := forward, reverse_distance_m := reverse,
                      g_current_test_speed := 1 / 2\<rparr>\<rparr>"

text \<open>
  Both direction handlers store the rotation count of their direction together with its
  conversion into metres: the state once they have done so with the given counts.
\<close>

definition measured_rotations :: "32 word \<Rightarrow> 32 word \<Rightarrow> system \<Rightarrow> system" where
  "measured_rotations nf nr s =
     s\<lparr>wl := (wl s)\<lparr>forward_rotations := nf,
                      forward_distance_m := hardware_rotations_to_distance nf,
                      reverse_rotations := nr,
                      reverse_distance_m := hardware_rotations_to_distance nr\<rparr>\<rparr>"


text \<open>
  A forward learning run: start, first speed test, twelve pulses validate 0.1 m/s, then an
  impact ends the direction after 12 rotations (about 2.2992 m).
\<close>

definition hardware_moving :: "32 word \<Rightarrow> hardware" where
  "hardware_moving rotations =
     hardware_ready\<lparr>esc_armed := True, hall_sensor_healthy := True,
                     total_rotations := rotations, last_hall_time := 2900000,
                     current_speed_ms := 1 / 10, target_speed_ms := 1 / 10\<rparr>"

definition forward_learning_run :: "wire_learning_call list" where
  "forward_learning_run =
     [WlInit,
      Surroundings (hardware_ready\<lparr>hall_sensor_healthy := True\<rparr>) sensor_all_ok True,
      WlStart 1000000,
      WlUpdate 1050000 [],
      Surroundings (hardware_moving 12) sensor_all_ok True,
      WlUpdate 3000000 [],
      Surroundings (hardware_moving 12) sensor_impact True,
      WlUpdate 3050000 []]"



section \<open>Properties of the hardware layer\<close>

text \<open>
  Claim C6, as stated: for every speed outside \<open>[0, MAX_SPEED]\<close> and every direction,
  \<open>hardware_set_motor_speed\<close> returns the invalid-argument error. It does not before
  \<open>hardware_init\<close> has run: the initialisation guard comes first and answers
  invalid-state, here for 3 m/s on the statically initialised hardware.
\<close>

theorem set_motor_speed_uninitialised_counterexample:
  "(3::rat) > MAX_SPEED_MS \<and>
   fst (hardware_set_motor_speed 3 True hardware_boot) = ESP_ERR_INVALID_STATE \<and>
   fst (hardware_set_motor_speed 3 True hardware_boot) \<noteq> ESP_ERR_INVALID_ARG"
  by (simp add: hardware_set_motor_speed_def hardware_boot_def MAX_SPEED_MS_def)

text \<open>
  Claim C6, amended: for every speed outside \<open>[0, MAX_SPEED]\<close> and every direction,
  \<open>hardware_set_motor_speed\<close> returns an error code and leaves \<open>target_speed_ms\<close> (and
  the direction) unchanged; the code is invalid-argument, with last error
  speed-out-of-range, whenever the hardware layer is initialised, and invalid-state before.
\<close>

theorem set_motor_speed_out_of_range:
  assumes "speed_ms < 0 \<or> speed_ms > MAX_SPEED_MS"
  shows "fst (hardware_set_motor_speed speed_ms forward h) =
           (if system_initialized h then ESP_ERR_INVALID_ARG else ESP_ERR_INVALID_STATE) \<and>
         g_last_error (snd (hardware_set_motor_speed speed_ms forward h)) =
           (if system_initialized h then HW_ERROR_SPEED_OUT_OF_RANGE
            else HW_ERROR_SYSTEM_NOT_INITIALIZED) \<and>
         target_speed_ms (snd (hardware_set_motor_speed speed_ms forward h)) = target_speed_ms h \<and>
         direction_forward (snd (hardware_set_motor_speed speed_ms forward h)) = direction_forward h"
proof -
  from assms have "\<not> hardware_is_speed_valid speed_ms"
    by (auto simp: hardware_is_speed_valid_def)
  then show ?thesis
    by (simp add: hardware_set_motor_speed_def)
qed

theorem set_motor_speed_out_of_range_witness:
  "((3::rat) < 0 \<or> 3 > MAX_SPEED_MS) \<and>
   fst (hardware_set_motor_speed 3 False hardware_ready) = ESP_ERR_INVALID_ARG \<and>
   target_speed_ms (snd (hardware_set_motor_speed 3 False hardware_ready)) = 0"
proof -
  have h: "(3::rat) < 0 \<or> 3 > MAX_SPEED_MS" by (simp add: MAX_SPEED_MS_def)
  have i: "system_initialized hardware_ready" "target_speed_ms hardware_ready = 0"
    by (simp_all add: hardware_ready_def hardware_init_def hardware_boot_def)
  show ?thesis
    using h i set_motor_speed_out_of_range [OF h, of False hardware_ready] by simp
qed

text \<open>
  Claim C8: in the periodic ESC update step, when a Hall pulse has been recorded, more than
  2000 ms have passed since it and the target speed is above the deadband, the step leaves
  \<open>current_speed_ms\<close> at 0 and \<open>hall_sensor_healthy\<close> false.
\<close>

theorem esc_update_hall_timeout:
  assumes "last_hall_time h \<noteq> 0"
    and "current_time - last_hall_time h > HALL_TIMEOUT_MS * 1000"
    and "target_speed_ms h > ESC_SPEED_DEADBAND"
  shows "current_speed_ms (esc_update_step current_time h) = 0 \<and>
         \<not> hall_sensor_healthy (esc_update_step current_time h)"
proof -
  from assms(1) have "last_hall_time h > 0"
    by (simp add: word_greater_zero_iff)
  with assms(2,3) show ?thesis
    by (simp add: esc_update_step_def Let_def)
qed

theorem esc_update_hall_timeout_witness:
  "last_hall_time hardware_stalled \<noteq> 0 \<and>
   (3000001::64 word) - last_hall_time hardware_stalled > HALL_TIMEOUT_MS * 1000 \<and>
   target_speed_ms hardware_stalled > ESC_SPEED_DEADBAND \<and>
   hall_sensor_healthy hardware_stalled \<and>
   current_speed_ms (esc_update_step 3000001 hardware_stalled) = 0 \<and>
   \<not> hall_sensor_healthy (esc_update_step 3000001 hardware_stalled)"
proof -
  have a: "last_hall_time hardware_stalled \<noteq> 0"
    by (simp add: hardware_stalled_def)
  have b: "(3000001::64 word) - last_hall_time hardware_stalled > HALL_TIMEOUT_MS * 1000"
    by (simp add: hardware_stalled_def HALL_TIMEOUT_MS_def)
  have c: "target_speed_ms hardware_stalled > ESC_SPEED_DEADBAND"
    by (simp add: hardware_stalled_def ESC_SPEED_DEADBAND_def)
  have d: "hall_sensor_healthy hardware_stalled"
    by (simp add: hardware_stalled_def)
  show ?thesis
    using a b c d esc_update_hall_timeout [OF a b c] by simp
qed

section \<open>The automatic mode's 5 m/s commands\<close>

lemma set_motor_speed_five:
  "hardware_set_motor_speed 5 forward h =
     (if system_initialized h
      then (ESP_ERR_INVALID_ARG, h\<lparr>g_last_error := HW_ERROR_SPEED_OUT_OF_RANGE\<rparr>)
      else (ESP_ERR_INVALID_STATE, h\<lparr>g_last_error := HW_ERROR_SYSTEM_NOT_INITIALIZED\<rparr>))"
  by (simp add: hardware_set_motor_speed_def hardware_is_speed_valid_def MAX_SPEED_MS_def)

text \<open>
  Claim C3, as stated: every 5.0 m/s command of the automatic mode is rejected by
  \<open>hardware_set_motor_speed\<close> with an invalid-argument error. On hardware that has
  not been initialised the cruise command of \<open>automatic_mode_maintain_cruise_speed\<close>
  is rejected by the initialisation guard instead, with invalid-state.
\<close>

theorem automatic_cruise_uninitialised_counterexample:
  "AUTO_MODE_MAX_SPEED_MS > MAX_SPEED_MS \<and>
   fst (hardware_set_motor_speed AUTO_MODE_MAX_SPEED_MS
          (cycle_direction_forward (am system_boot)) (hw system_boot)) = ESP_ERR_INVALID_STATE \<and>
   g_last_error (hw (snd (automatic_mode_maintain_cruise_speed system_boot))) =
     HW_ERROR_SYSTEM_NOT_INITIALIZED"
  by (simp add: automatic_mode_maintain_cruise_speed_def hardware_set_motor_speed_def
      hardware_get_current_speed_def system_boot_def hardware_boot_def automatic_mode_boot_def
      AUTO_MODE_MAX_SPEED_MS_def MAX_SPEED_MS_def Let_def)

text \<open>
  Claim C3, amended: the cruise speed and the coasting calibration speed of the automatic
  mode (both 5.0 m/s) exceed \<open>MAX_SPEED_MS\<close> = 2.0 m/s, so \<open>hardware_set_motor_speed\<close>
  rejects a command at either speed, with invalid-argument once the hardware layer is
  initialised and with invalid-state before, and leaves the hardware target speed as it
  was: \<open>automatic_mode_maintain_cruise_speed\<close> never changes the hardware target (it
  only records 5.0 in the engine's own \<open>current_target_speed\<close>), and starting the
  coasting calibration commands the 0.1 m/s start speed or nothing.
\<close>

theorem automatic_cruise_speed_rejected:
  "AUTO_MODE_MAX_SPEED_MS > MAX_SPEED_MS \<and>
   AUTO_COASTING_CALIBRATION_SPEED > MAX_SPEED_MS \<and>
   fst (hardware_set_motor_speed AUTO_MODE_MAX_SPEED_MS forward h) =
     (if system_initialized h then ESP_ERR_INVALID_ARG else ESP_ERR_INVALID_STATE) \<and>
   fst (hardware_set_motor_speed AUTO_COASTING_CALIBRATION_SPEED forward h) =
     (if system_initialized h then ESP_ERR_INVALID_ARG else ESP_ERR_INVALID_STATE) \<and>
   target_speed_ms (snd (hardware_set_motor_speed AUTO_MODE_MAX_SPEED_MS forward h)) =
     target_speed_ms h \<and>
   target_speed_ms (snd (hardware_set_motor_speed AUTO_COASTING_CALIBRATION_SPEED forward h)) =
     target_speed_ms h \<and>
   target_speed_ms (hw (snd (automatic_mode_maintain_cruise_speed s))) = target_speed_ms (hw s) \<and>
   current_target_speed (am (snd (automatic_mode_maintain_cruise_speed s))) =
     AUTO_MODE_MAX_SPEED_MS \<and>
   (target_speed_ms (hw (snd (automatic_mode_start_coasting_calibration now s))) =
      target_speed_ms (hw s) \<or>
    target_speed_ms (hw (snd (automatic_mode_start_coasting_calibration now s))) =
      AUTO_MODE_START_SPEED_MS)"
  by (simp add: set_motor_speed_five AUTO_MODE_MAX_SPEED_MS_def
      AUTO_COASTING_CALIBRATION_SPEED_def automatic_mode_maintain_cruise_speed_def Let_def
      split_beta automatic_mode_start_coasting_calibration_def
      automatic_mode_accelerate_to_speed_def)
    (simp add: hardware_set_motor_speed_def MAX_SPEED_MS_def)

theorem automatic_cruise_speed_rejected_witness:
  "fst (hardware_set_motor_speed AUTO_MODE_MAX_SPEED_MS True hardware_stalled) =
     ESP_ERR_INVALID_ARG \<and>
   target_speed_ms (snd (hardware_set_motor_speed AUTO_MODE_MAX_SPEED_MS True hardware_stalled)) = 1"
proof -
  have i: "system_initialized hardware_stalled" "target_speed_ms hardware_stalled = 1"
    by (simp_all add: hardware_stalled_def hardware_ready_def hardware_init_def
        hardware_boot_def)
  show ?thesis
    using i automatic_cruise_speed_rejected [of True hardware_stalled system_boot 0]
    by simp
qed

section \<open>Wire-end detection\<close>

lemma detect_hall_timeout_result:
  "fst (wire_learning_detect_hall_timeout now s) =
     (hardware_get_time_since_last_hall_pulse now (hw s) > WIRE_END_HALL_TIMEOUT_MS * 1000 \<and>
      g_consecutive_hall_timeouts (wl s) + 1 \<ge> 3)"
  by (simp add: wire_learning_detect_hall_timeout_def Let_def)

lemma detect_hall_timeout_state:
  "hw (snd (wire_learning_detect_hall_timeout now s)) = hw s"
  "g_consecutive_hall_timeouts (wl (snd (wire_learning_detect_hall_timeout now s))) =
     (if hardware_get_time_since_last_hall_pulse now (hw s) > WIRE_END_HALL_TIMEOUT_MS * 1000
      then if g_consecutive_hall_timeouts (wl s) + 1 \<ge> 3 then 0
           else g_consecutive_hall_timeouts (wl s) + 1
      else 0)"
  by (simp_all add: wire_learning_detect_hall_timeout_def Let_def)

lemma best_detection_method_result:
  "fst (wire_learning_get_best_detection_method now t) =
     (if total_accel_g (sensor t) > WIRE_END_IMPACT_THRESHOLD_G then WIRE_END_IMPACT_DETECTED
      else if fst (wire_learning_detect_speed_drop t) then WIRE_END_SPEED_DROP
      else if hardware_get_time_since_last_hall_pulse now (hw t) > WIRE_END_HALL_TIMEOUT_MS * 1000
              \<and> g_consecutive_hall_timeouts (wl t) + 1 \<ge> 3
      then WIRE_END_HALL_TIMEOUT else WIRE_END_NONE)"
  by (simp add: wire_learning_get_best_detection_method_def wire_learning_detect_impact_def
      wire_learning_detect_hall_timeout_def wire_learning_detect_speed_drop_def Let_def
      split_beta)

text \<open>
  Claim C4, as stated: the wire-end check of the automatic mode is the three-detector
  logic of wire learning, Hall-timeout detector with three consecutive observations
  included. On a single observation of a three second Hall gap, with no impact and no
  speed drop, the automatic mode reports the wire end and wire learning reports none.
\<close>

theorem automatic_wire_end_differs_counterexample:
  "automatic_mode_is_at_wire_end 4000000 hall_gap_state \<and>
   fst (wire_learning_get_best_detection_method 4000000 hall_gap_state) = WIRE_END_NONE"
  by (simp add: automatic_mode_is_at_wire_end_def wire_learning_get_best_detection_method_def
      wire_learning_detect_impact_def wire_learning_detect_speed_drop_def
      wire_learning_detect_hall_timeout_def hardware_get_time_since_last_hall_pulse_def
      hardware_get_current_speed_def
      hall_gap_state_def system_boot_def hardware_ready_def hardware_init_def hardware_boot_def
      sensor_health_boot_def automatic_mode_boot_def wire_learning_boot_def
      AUTO_MODE_MAX_IMPACT_G_def WIRE_END_IMPACT_THRESHOLD_G_def WIRE_END_HALL_TIMEOUT_MS_def
      WIRE_LEARNING_START_SPEED_MS_def Let_def word_le_nat_alt)

text \<open>
  Claim C4, amended: \<open>automatic_mode_is_at_wire_end\<close> has three detectors of its own,
  tried in the order impact, Hall-timeout, speed-drop: an acceleration above 0.5 g, a
  single observation of more than 2000 ms since the last Hall pulse (no count of
  consecutive observations), or a target speed above 0.5 m/s with a current speed below
  0.2 m/s. \<open>wire_learning_get_best_detection_method\<close> keeps the order impact, speed-drop,
  Hall-timeout, the first match winning (an impact above 1.0 g wins whatever the others
  see), and its Hall-timeout detector fires on the third consecutive observation of a gap
  above 2000 ms and not on the first or second.
\<close>

theorem wire_end_detectors:
  assumes gap: "hardware_get_time_since_last_hall_pulse now (hw s) > 2000000"
    and first: "g_consecutive_hall_timeouts (wl s) = 0"
    and impact: "total_accel_g (sensor i) > WIRE_END_IMPACT_THRESHOLD_G"
  shows "automatic_mode_is_at_wire_end now t =
           (total_accel_g (sensor t) > AUTO_MODE_MAX_IMPACT_G \<or>
            hardware_get_time_since_last_hall_pulse now (hw t) > 2000000 \<or>
            current_target_speed (am t) > 1 / 2 \<and> current_speed_ms (hw t) < 2 / 10) \<and>
         automatic_mode_is_at_wire_end now s \<and>
         fst (wire_learning_get_best_detection_method now s) \<noteq> WIRE_END_HALL_TIMEOUT \<and>
         \<not> fst (wire_learning_detect_hall_timeout now s) \<and>
         \<not> fst (wire_learning_detect_hall_timeout now
                  (snd (wire_learning_detect_hall_timeout now s))) \<and>
         fst (wire_learning_detect_hall_timeout now
                (snd (wire_learning_detect_hall_timeout now
                  (snd (wire_learning_detect_hall_timeout now s))))) \<and>
         fst (wire_learning_get_best_detection_method now i) = WIRE_END_IMPACT_DETECTED \<and>
         fst (wire_learning_get_best_detection_method now t) =
           (if total_accel_g (sensor t) > WIRE_END_IMPACT_THRESHOLD_G then WIRE_END_IMPACT_DETECTED
            else if fst (wire_learning_detect_speed_drop t) then WIRE_END_SPEED_DROP
            else if hardware_get_time_since_last_hall_pulse now (hw t) > WIRE_END_HALL_TIMEOUT_MS * 1000
                    \<and> g_consecutive_hall_timeouts (wl t) + 1 \<ge> 3
            then WIRE_END_HALL_TIMEOUT else WIRE_END_NONE)"
proof -
  let ?s1 = "snd (wire_learning_detect_hall_timeout now s)"
  let ?s2 = "snd (wire_learning_detect_hall_timeout now ?s1)"
  have a: "automatic_mode_is_at_wire_end now t =
           (total_accel_g (sensor t) > AUTO_MODE_MAX_IMPACT_G \<or>
            hardware_get_time_since_last_hall_pulse now (hw t) > 2000000 \<or>
            current_target_speed (am t) > 1 / 2 \<and> current_speed_ms (hw t) < 2 / 10)"
    by (auto simp: automatic_mode_is_at_wire_end_def hardware_get_current_speed_def)
  have b: "automatic_mode_is_at_wire_end now s"
    using gap by (simp add: automatic_mode_is_at_wire_end_def)
  have c: "fst (wire_learning_get_best_detection_method now s) \<noteq> WIRE_END_HALL_TIMEOUT"
    using first by (simp add: best_detection_method_result word_le_nat_alt)
  have gap': "hardware_get_time_since_last_hall_pulse now (hw s) > WIRE_END_HALL_TIMEOUT_MS * 1000"
    using gap by (simp add: WIRE_END_HALL_TIMEOUT_MS_def)
  have n0: "\<not> fst (wire_learning_detect_hall_timeout now s)"
    using first by (simp add: detect_hall_timeout_result word_le_nat_alt)
  have c1: "g_consecutive_hall_timeouts (wl ?s1) = 1" and h1: "hw ?s1 = hw s"
    using first gap' by (simp_all add: detect_hall_timeout_state word_le_nat_alt)
  have n1: "\<not> fst (wire_learning_detect_hall_timeout now ?s1)"
    using c1 by (simp add: detect_hall_timeout_result word_le_nat_alt)
  have c2: "g_consecutive_hall_timeouts (wl ?s2) = 2" and h2: "hw ?s2 = hw s"
    using c1 h1 gap' by (simp_all add: detect_hall_timeout_state word_le_nat_alt)
  have y2: "fst (wire_learning_detect_hall_timeout now ?s2)"
    using c2 h2 gap' by (simp add: detect_hall_timeout_result)
  have d: "fst (wire_learning_get_best_detection_method now i) = WIRE_END_IMPACT_DETECTED"
    using impact by (simp add: best_detection_method_result)
  from a b c n0 n1 y2 d best_detection_method_result [of now t] show ?thesis
    by blast
qed

theorem wire_end_detectors_witness:
  "hardware_get_time_since_last_hall_pulse 4000000 (hw hall_gap_state) > 2000000 \<and>
   g_consecutive_hall_timeouts (wl hall_gap_state) = 0 \<and>
   total_accel_g (sensor impact_state) > WIRE_END_IMPACT_THRESHOLD_G \<and>
   automatic_mode_is_at_wire_end 4000000 hall_gap_state \<and>
   fst (wire_learning_get_best_detection_method 4000000 hall_gap_state) \<noteq> WIRE_END_HALL_TIMEOUT \<and>
   fst (wire_learning_get_best_detection_method 4000000 impact_state) = WIRE_END_IMPACT_DETECTED"
proof -
  have gap: "hardware_get_time_since_last_hall_pulse 4000000 (hw hall_gap_state) > 2000000"
    by (simp add: hardware_get_time_since_last_hall_pulse_def hall_gap_state_def)
  have first: "g_consecutive_hall_timeouts (wl hall_gap_state) = 0"
    by (simp add: hall_gap_state_def system_boot_def wire_learning_boot_def)
  have impact: "total_accel_g (sensor impact_state) > WIRE_END_IMPACT_THRESHOLD_G"
    by (simp add: impact_state_def sensor_impact_def WIRE_END_IMPACT_THRESHOLD_G_def)
  show ?thesis
    using wire_end_detectors [OF gap first impact, of hall_gap_state] gap first impact
    by blast
qed

section \<open>Wire learning: speed validation and progression\<close>


lemma start_speed_test_frame:
  "g_current_test_speed (wl (snd (start_speed_test now v s))) = v"
  "g_coasting_calibration_active (wl (snd (start_speed_test now v s))) =
     g_coasting_calibration_active (wl s)"
  "coord (snd (start_speed_test now v s)) = coord s"
  by (simp_all add: start_speed_test_def Let_def split: prod.splits)











section \<open>Wire learning: the coasting side-measurement is out of reach\<close>

lemma validate_frame:
  "g_current_test_speed (wl (snd (validate_current_speed now s))) = g_current_test_speed (wl s)"
  "g_coasting_calibration_active (wl (snd (validate_current_speed now s))) =
     g_coasting_calibration_active (wl s)"
  "coord (snd (validate_current_speed now s)) = coord s"
  by (simp_all add: validate_current_speed_def Let_def)

lemma progress_frame:
  "g_coasting_calibration_active (wl (snd (progress_to_next_speed now s))) =
     g_coasting_calibration_active (wl s)"
  "coord (snd (progress_to_next_speed now s)) = coord s"
  by (simp_all add: progress_to_next_speed_def Let_def start_speed_test_frame)

lemma progress_bound:
  "g_current_test_speed (wl s) \<le> WIRE_LEARNING_MAX_SPEED_MS \<Longrightarrow>
   g_current_test_speed (wl (snd (progress_to_next_speed now s))) \<le> WIRE_LEARNING_MAX_SPEED_MS"
  by (simp add: progress_to_next_speed_def Let_def start_speed_test_frame)

lemma detection_frame:
  "g_current_test_speed (wl (snd (wire_learning_get_best_detection_method now s))) =
     g_current_test_speed (wl s)"
  "g_coasting_calibration_active (wl (snd (wire_learning_get_best_detection_method now s))) =
     g_coasting_calibration_active (wl s)"
  "coord (snd (wire_learning_get_best_detection_method now s)) = coord s"
  by (simp_all add: wire_learning_get_best_detection_method_def
      wire_learning_detect_speed_drop_def wire_learning_detect_hall_timeout_def Let_def
      split: prod.splits)

lemma below_start_speed_test:
  "below_coasting_trigger s \<Longrightarrow> v \<le> WIRE_LEARNING_MAX_SPEED_MS \<Longrightarrow>
   below_coasting_trigger (snd (start_speed_test now v s))"
  by (simp add: below_coasting_trigger_def start_speed_test_frame)

lemma below_validate:
  "below_coasting_trigger s \<Longrightarrow> below_coasting_trigger (snd (validate_current_speed now s))"
  by (simp add: below_coasting_trigger_def validate_frame)

lemma below_progress:
  "below_coasting_trigger s \<Longrightarrow> below_coasting_trigger (snd (progress_to_next_speed now s))"
  by (simp add: below_coasting_trigger_def progress_frame progress_bound)

lemma below_detection:
  "below_coasting_trigger s \<Longrightarrow>
   below_coasting_trigger (snd (wire_learning_get_best_detection_method now s))"
  by (simp add: below_coasting_trigger_def detection_frame)

lemma start_speed_le: "WIRE_LEARNING_START_SPEED_MS \<le> WIRE_LEARNING_MAX_SPEED_MS"
  by (simp add: WIRE_LEARNING_START_SPEED_MS_def WIRE_LEARNING_MAX_SPEED_MS_def)

lemma below_forward:
  assumes "below_coasting_trigger s"
  shows "\<exists>r s'. handle_forward_direction now polls s = Some (r, s') \<and> below_coasting_trigger s'"
proof -
  let ?s1 = "snd (validate_current_speed now s)"
  let ?s2 = "snd (wire_learning_get_best_detection_method now ?s1)"
  have b1: "below_coasting_trigger ?s1" using assms by (rule below_validate)
  have b2: "below_coasting_trigger ?s2" using b1 by (rule below_detection)
  have lt4: "\<not> g_current_test_speed (wl ?s2) \<ge> 4"
    using b2 by (simp add: below_coasting_trigger_def WIRE_LEARNING_MAX_SPEED_MS_def)
  show ?thesis
    using assms b1 b2 lt4 below_progress [OF b1, of now]
      below_start_speed_test [OF assms start_speed_le, of now]
    by (auto simp: handle_forward_direction_def Let_def split_beta
        below_coasting_trigger_def wire_learning_reset_detection_def
        WIRE_LEARNING_MAX_SPEED_MS_def)
qed

lemma below_reverse:
  assumes "below_coasting_trigger s"
  shows "below_coasting_trigger (snd (handle_reverse_direction now s))"
proof -
  let ?s1 = "snd (validate_current_speed now s)"
  let ?s2 = "snd (wire_learning_get_best_detection_method now ?s1)"
  have b1: "below_coasting_trigger ?s1" using assms by (rule below_validate)
  have b2: "below_coasting_trigger ?s2" using b1 by (rule below_detection)
  show ?thesis
    using assms b1 b2 below_progress [OF b1, of now]
      below_start_speed_test [OF assms start_speed_le, of now]
    by (auto simp: handle_reverse_direction_def Let_def split_beta below_coasting_trigger_def)
qed

lemma below_calculate:
  "below_coasting_trigger s \<Longrightarrow> below_coasting_trigger (snd (calculate_final_results now s))"
  by (simp add: calculate_final_results_def Let_def split_beta below_coasting_trigger_def
      mode_coordinator_set_wire_learning_results_def)

lemma below_update:
  assumes "below_coasting_trigger s"
  shows "\<exists>r s'. wire_learning_mode_update now polls s = Some (r, s') \<and>
                below_coasting_trigger s'"
proof (cases "wl_state (wl s)")
  case WIRE_LEARNING_FORWARD_DIRECTION
  from below_forward [OF assms, of now polls]
  obtain r s' where "handle_forward_direction now polls s = Some (r, s')"
    and "below_coasting_trigger s'" by blast
  with WIRE_LEARNING_FORWARD_DIRECTION assms show ?thesis
    by (auto simp: wire_learning_mode_update_def below_coasting_trigger_def)
next
  case WIRE_LEARNING_REVERSE_DIRECTION
  with assms below_reverse [OF assms, of now] show ?thesis
    by (auto simp: wire_learning_mode_update_def below_coasting_trigger_def)
next
  case WIRE_LEARNING_CALCULATING_RESULTS
  with assms below_calculate [OF assms, of now] show ?thesis
    by (auto simp: wire_learning_mode_update_def below_coasting_trigger_def)
qed (use assms in \<open>auto simp: wire_learning_mode_update_def below_coasting_trigger_def\<close>)

lemma below_start:
  "below_coasting_trigger s \<Longrightarrow> below_coasting_trigger (snd (wire_learning_mode_start now s))"
  by (simp add: wire_learning_mode_start_def Let_def split_beta below_coasting_trigger_def
      wire_learning_reset_detection_def clear_learning_progress_def
      WIRE_LEARNING_MAX_SPEED_MS_def)

lemma below_stop:
  "below_coasting_trigger s \<Longrightarrow> below_coasting_trigger (snd (wire_learning_mode_stop i s))"
  by (simp add: wire_learning_mode_stop_def below_coasting_trigger_def)

lemma below_step:
  assumes "below_coasting_trigger s"
  shows "\<exists>s'. wire_learning_step c s = Some s' \<and> below_coasting_trigger s'"
proof (cases c)
  case (WlUpdate now polls)
  with below_update [OF assms, of now polls] show ?thesis by auto
next
  case (WlStart now)
  with below_start [OF assms, of now] show ?thesis by simp
next
  case (WlStop i)
  with below_stop [OF assms, of i] show ?thesis by simp
qed (use assms in \<open>simp_all add: below_coasting_trigger_def wire_learning_mode_init_def
      clear_learning_progress_def wire_learning_emergency_stop_def wire_learning_mode_reset_def
      wire_learning_mode_stop_def wire_learning_reset_detection_def
      WIRE_LEARNING_MAX_SPEED_MS_def\<close>)

lemma below_run:
  "below_coasting_trigger s \<Longrightarrow>
   \<exists>s'. wire_learning_run calls s = Some s' \<and> below_coasting_trigger s'"
proof (induction calls arbitrary: s)
  case Nil
  then show ?case by simp
next
  case (Cons c calls)
  from below_step [OF Cons.prems, of c]
  obtain s1 where s1: "wire_learning_step c s = Some s1" "below_coasting_trigger s1" by blast
  from Cons.IH [OF s1(2)] s1(1) show ?case by simp
qed

lemma below_boot: "below_coasting_trigger system_boot"
  by (simp add: below_coasting_trigger_def system_boot_def wire_learning_boot_def
      coordinator_boot_def WIRE_LEARNING_START_SPEED_MS_def WIRE_LEARNING_MAX_SPEED_MS_def)

text \<open>
  Claim C10: whatever calls are made on the wire learning engine after boot, and whatever
  the hardware, the sensors and the validation flag do in between, every call returns, the
  test speed \<open>g_current_test_speed\<close> stays at or below 1.0 m/s, hence below the 4.0 m/s
  that the coasting side-measurement asks for at forward completion, no coasting
  measurement is ever begun, and the coordinator's coasting data stay as they were at
  boot, uncalibrated.
\<close>

theorem wire_learning_never_measures_coasting:
  "\<exists>s'. wire_learning_run calls system_boot = Some s' \<and>
        g_current_test_speed (wl s') \<le> WIRE_LEARNING_MAX_SPEED_MS \<and>
        g_current_test_speed (wl s') < 4 \<and>
        \<not> g_coasting_calibration_active (wl s') \<and>
        g_coasting_data (coord s') = g_coasting_data (coord system_boot) \<and>
        \<not> calibrated (g_coasting_data (coord s'))"
proof -
  from below_run [OF below_boot, of calls]
  obtain s' where "wire_learning_run calls system_boot = Some s'" "below_coasting_trigger s'"
    by blast
  then show ?thesis
    by (auto simp: below_coasting_trigger_def WIRE_LEARNING_MAX_SPEED_MS_def system_boot_def
        coordinator_boot_def coasting_data_zero_def)
qed

text \<open>
  The statement at a run that does complete its forward direction: an impact ends it
  after 12 rotations at test speed 0.2 m/s, and the engine turns to the reverse direction
  without a coasting measurement.
\<close>

theorem wire_learning_never_measures_coasting_witness:
  "\<exists>s'. wire_learning_run forward_learning_run system_boot = Some s' \<and>
        wl_state (wl s') = WIRE_LEARNING_REVERSE_DIRECTION \<and>
        forward_end_method (wl s') = WIRE_END_IMPACT_DETECTED \<and>
        forward_rotations (wl s') = 12 \<and>
        \<not> g_coasting_calibration_active (wl s') \<and>
        \<not> calibrated (g_coasting_data (coord s'))"
proof -
  have run: "map_option (\<lambda>s'. (wl_state (wl s'), forward_end_method (wl s'),
                               forward_rotations (wl s')))
               (wire_learning_run forward_learning_run system_boot) =
             Some (WIRE_LEARNING_REVERSE_DIRECTION, WIRE_END_IMPACT_DETECTED, 12)"
    by code_simp
  from wire_learning_never_measures_coasting [of forward_learning_run] run
  show ?thesis by auto
qed

section \<open>Single precision: the rounding is to a nearest number of the format\<close>

text \<open>
  \<open>f32\<close> returns a number of the format's grid around its argument that is at most half a
  grid step away, which bounds the error of every rounded operation by one part in
  \<open>2 ^ 24\<close> of the exact result, or by \<open>1 / 2 ^ 150\<close> for results in the subnormal range.
  The two lemmas at the end carry that bound through the percentage computed by
  \<open>calculate_final_results\<close>.
\<close>

lemma literal_wheel_circumference: "f32 WHEEL_CIRCUMFERENCE_MM = 6278349 / 32768"
  unfolding WHEEL_CIRCUMFERENCE_MM_def by code_simp

lemma literal_mm_to_m: "f32 MM_TO_M = 8589935 / 8589934592"
  unfolding MM_TO_M_def by code_simp

lemma round_half_even_near: "\<bar>of_int (round_half_even q) - q\<bar> \<le> 1 / 2"
proof -
  define d where "d = q - of_int \<lfloor>q\<rfloor>"
  have d: "0 \<le> d" "d < 1" unfolding d_def by linarith+
  have r: "of_int (round_half_even q) - q =
             (if d < 1 / 2 then - d else if d > 1 / 2 then 1 - d
              else if even \<lfloor>q\<rfloor> then - d else 1 - d)"
    by (simp add: round_half_even_def Let_def d_def)
  show ?thesis unfolding r using d by (simp add: abs_if)
qed

lemma pow2_bitlen:
  assumes "0 < p"
  shows "(2::rat) powi (bitlen p - 1) \<le> of_int p" "of_int p < (2::rat) powi (bitlen p)"
proof -
  from bitlen_bounds [OF assms] have a: "2 ^ nat (bitlen p - 1) \<le> p" and b: "p < 2 ^ nat (bitlen p)"
    by simp_all
  have ge: "1 \<le> bitlen p" using assms by (auto simp: bitlen_alt_def)
  have "(of_int (2 ^ nat (bitlen p - 1)) :: rat) \<le> of_int p" using a by (simp only: of_int_le_iff)
  then show "(2::rat) powi (bitlen p - 1) \<le> of_int p" using ge by (simp add: power_int_def)
  have "(of_int p :: rat) < of_int (2 ^ nat (bitlen p))" using b by (simp only: of_int_less_iff)
  then show "of_int p < (2::rat) powi (bitlen p)" using ge by (simp add: power_int_def)
qed

lemma floor_log2_bounds:
  assumes "x \<noteq> 0"
  shows "2 powi (floor_log2 x) \<le> \<bar>x\<bar>" "\<bar>x\<bar> < 2 powi (floor_log2 x + 1)"
proof -
  obtain p q where pq: "quotient_of \<bar>x\<bar> = (p, q)" by (cases "quotient_of \<bar>x\<bar>")
  then have q: "0 < q" and x: "\<bar>x\<bar> = of_int p / of_int q"
    using quotient_of_denom_pos quotient_of_div by blast+
  have "0 < \<bar>x\<bar>" using assms by simp
  then have "0 < (of_int p :: rat) / of_int q" by (simp only: x)
  then have p: "0 < p" using q by (simp add: zero_less_divide_iff)
  let ?e = "bitlen p - bitlen q"
  have up: "\<bar>x\<bar> < 2 powi (?e + 1)"
  proof -
    have "of_int p < (2::rat) powi (bitlen p)" by (rule pow2_bitlen [OF p])
    also have "\<dots> = 2 powi (?e + 1) * 2 powi (bitlen q - 1)"
      by (simp add: power_int_add [symmetric])
    also have "\<dots> \<le> 2 powi (?e + 1) * of_int q"
      using pow2_bitlen(1) [OF q] by (simp add: mult_left_mono)
    finally show ?thesis using q by (simp add: x pos_divide_less_eq)
  qed
  have lo: "2 powi (?e - 1) < \<bar>x\<bar>"
  proof -
    have "(2::rat) powi (?e - 1) * of_int q < 2 powi (?e - 1) * 2 powi (bitlen q)"
      using pow2_bitlen(2) [OF q] by (simp add: mult_strict_left_mono)
    also have "\<dots> = 2 powi (bitlen p - 1)"
      by (simp add: power_int_add [symmetric])
    also have "\<dots> \<le> of_int p" by (rule pow2_bitlen [OF p])
    finally show ?thesis using q by (simp add: x pos_less_divide_eq)
  qed
  have fl: "floor_log2 x = (if 2 powi ?e \<le> \<bar>x\<bar> then ?e else ?e - 1)"
    by (simp add: floor_log2_def pq Let_def)
  show "2 powi (floor_log2 x) \<le> \<bar>x\<bar>"
    using lo by (simp add: fl)
  show "\<bar>x\<bar> < 2 powi (floor_log2 x + 1)"
    using up by (auto simp add: fl)
qed

lemma f32_nearest:
  assumes "x \<noteq> 0"
  shows "\<bar>f32 x - x\<bar> \<le> 2 powi (max (floor_log2 x) (- 126) - 24)"
proof -
  let ?u = "(2::rat) powi (max (floor_log2 x) (- 126) - 23)"
  have u: "0 < ?u" by simp
  have "f32 x - x = (of_int (round_half_even (x / ?u)) - x / ?u) * ?u"
    using assms u by (simp add: f32_def Let_def algebra_simps)
  then have "\<bar>f32 x - x\<bar> = \<bar>of_int (round_half_even (x / ?u)) - x / ?u\<bar> * ?u"
    using u by (simp add: abs_mult)
  also have "\<dots> \<le> 1 / 2 * ?u"
    using round_half_even_near [of "x / ?u"] u by (intro mult_right_mono) simp_all
  also have "\<dots> = 2 powi (max (floor_log2 x) (- 126) - 24)"
    by (simp add: power_int_diff)
  finally show ?thesis .
qed


lemma f32_error:
  "\<bar>f32 x - x\<bar> \<le> \<bar>x\<bar> / 2 ^ 24 + 1 / 2 ^ 150"
proof (cases "x = 0")
  case True
  then show ?thesis by (simp add: f32_def)
next
  case False
  show ?thesis
  proof (cases "- 126 \<le> floor_log2 x")
    case True
    then have "max (floor_log2 x) (- 126) - 24 = floor_log2 x - 24" by simp
    with f32_nearest [OF False]
    have "\<bar>f32 x - x\<bar> \<le> 2 powi (floor_log2 x - 24)" by simp
    also have "\<dots> = 2 powi (floor_log2 x) / 2 ^ 24"
      by (simp add: power_int_diff)
    also have "\<dots> \<le> \<bar>x\<bar> / 2 ^ 24"
      using floor_log2_bounds(1) [OF False] by (simp add: divide_right_mono)
    finally show ?thesis by simp
  next
    case False
    then have "max (floor_log2 x) (- 126) - 24 = - 150" by simp
    with f32_nearest [OF \<open>x \<noteq> 0\<close>]
    have "\<bar>f32 x - x\<bar> \<le> 2 powi (- 150)" by simp
    also have "\<dots> = 1 / 2 ^ 150" by (simp add: power_int_minus field_simps)
    finally show ?thesis by (simp add: add_increasing)
  qed
qed

lemma f32_error_numeral:
  "\<bar>f32 x - x\<bar> \<le> \<bar>x\<bar> / 16777216 + 1 / 1427247692705959881058285969449495136382746624"
  using f32_error [of x] by simp

lemma f32_nonneg:
  assumes "0 \<le> x"
  shows "0 \<le> f32 x"
proof -
  have "0 \<le> round_half_even q" if "0 \<le> q" for q
    using that by (simp add: round_half_even_def Let_def)
  then show ?thesis using assms by (simp add: f32_def Let_def)
qed

lemma percent_accepted_below:
  assumes far: "1 / 8 \<le> df + dr"
    and pc: "\<bar>df - dr\<bar> / ((df + dr) / 2) * 100 \<le> 5 - 1 / 100000"
  shows "f32 (f32 (df + dr) / 2) \<noteq> 0 \<and>
         f32 (f32 (\<bar>f32 (df - dr)\<bar> / f32 (f32 (df + dr) / 2)) * 100) \<le> 5"
proof -
  define h where "h = (df + dr) / 2"
  define s1 where "s1 = f32 (df + dr)"
  define avg where "avg = f32 (s1 / 2)"
  define d1 where "d1 = \<bar>f32 (df - dr)\<bar>"
  define r where "r = d1 / avg"
  define q where "q = f32 r"
  have h: "1 / 16 \<le> h" and hs: "df + dr = 2 * h" using far by (simp_all add: h_def)
  have "\<bar>s1 - 2 * h\<bar> \<le> \<bar>2 * h\<bar> / 16777216 + 1 / 1427247692705959881058285969449495136382746624"
    using f32_error_numeral [of "df + dr"] by (simp only: s1_def hs)
  with h have s1: "2 * h * (1 - 1 / 16777216) - 1 / 1427247692705959881058285969449495136382746624 \<le> s1"
    by ((simp add: abs_le_iff)?; linarith?)
  with h have s1_pos: "0 \<le> s1 / 2"
    by ((simp add: abs_le_iff)?; linarith?)
  have "\<bar>avg - s1 / 2\<bar> \<le> \<bar>s1 / 2\<bar> / 16777216 + 1 / 1427247692705959881058285969449495136382746624"
    using f32_error_numeral [of "s1 / 2"] by (simp only: avg_def)
  with s1 s1_pos h have avg: "h * (1 - 3 / 16777216) \<le> avg"
    by ((simp add: abs_le_iff)?; linarith?)
  with h have avg_pos: "0 < avg"
    by ((simp add: abs_le_iff)?; linarith?)
  have hpos: "0 < h" using h by simp
  have dd: "\<bar>df - dr\<bar> \<le> h * (499999 / 10000000)"
    using pc hpos by (simp add: h_def [symmetric] pos_divide_le_eq)
  have "\<bar>f32 (df - dr) - (df - dr)\<bar> \<le> \<bar>df - dr\<bar> / 16777216 + 1 / 1427247692705959881058285969449495136382746624"
    by (rule f32_error_numeral)
  with dd h have d1: "d1 \<le> h * (499999 / 10000000 * (1 + 1 / 16777216) + 16 / 1427247692705959881058285969449495136382746624)"
    unfolding d1_def by ((simp add: abs_le_iff)?; linarith?)
  have d1_pos: "0 \<le> d1" by (simp add: d1_def)
  have r: "r \<le> (499999 / 10000000 * (1 + 1 / 16777216) + 16 / 1427247692705959881058285969449495136382746624) / (1 - 3 / 16777216)"
  proof -
    have "d1 / avg \<le> (h * (499999 / 10000000 * (1 + 1 / 16777216) + 16 / 1427247692705959881058285969449495136382746624))
                       / (h * (1 - 3 / 16777216))"
      using d1_pos d1 avg hpos by (intro frac_le) simp_all
    also have "\<dots> = (499999 / 10000000 * (1 + 1 / 16777216) + 16 / 1427247692705959881058285969449495136382746624)
                       / (1 - 3 / 16777216)"
      using hpos by simp
    finally show ?thesis by (simp only: r_def)
  qed
  have r_pos: "0 \<le> r" using d1_pos avg_pos by (simp add: r_def)
  have "\<bar>q - r\<bar> \<le> \<bar>r\<bar> / 16777216 + 1 / 1427247692705959881058285969449495136382746624"
    unfolding q_def by (rule f32_error_numeral)
  with r r_pos have q: "\<bar>q * 100\<bar> \<le> 4999992 / 1000000"
    by ((simp add: abs_le_iff)?; linarith?)
  have "\<bar>f32 (q * 100) - q * 100\<bar> \<le> \<bar>q * 100\<bar> / 16777216 + 1 / 1427247692705959881058285969449495136382746624"
    by (rule f32_error_numeral)
  with q have "f32 (q * 100) \<le> 5"
    by ((simp add: abs_le_iff)?; linarith?)
  then show ?thesis
    using avg_pos by (simp add: q_def r_def d1_def avg_def s1_def)
qed

lemma percent_rejected_above:
  assumes far: "1 / 8 \<le> df + dr"
    and pc: "5 + 1 / 100000 \<le> \<bar>df - dr\<bar> / ((df + dr) / 2) * 100"
  shows "5 < f32 (f32 (\<bar>f32 (df - dr)\<bar> / f32 (f32 (df + dr) / 2)) * 100)"
proof -
  define h where "h = (df + dr) / 2"
  define s1 where "s1 = f32 (df + dr)"
  define avg where "avg = f32 (s1 / 2)"
  define d1 where "d1 = \<bar>f32 (df - dr)\<bar>"
  define r where "r = d1 / avg"
  define q where "q = f32 r"
  have h: "1 / 16 \<le> h" and hs: "df + dr = 2 * h" using far by (simp_all add: h_def)
  have hpos: "0 < h" using h by simp
  have e1: "\<bar>s1 - 2 * h\<bar> \<le> \<bar>2 * h\<bar> / 16777216 + 1 / 1427247692705959881058285969449495136382746624"
    using f32_error_numeral [of "df + dr"] by (simp only: s1_def hs)
  with h have s1: "2 * h * (1 - 1 / 16777216) - 1 / 1427247692705959881058285969449495136382746624 \<le> s1"
    and s1u: "s1 \<le> 2 * h * (1 + 1 / 16777216) + 1 / 1427247692705959881058285969449495136382746624"
    by ((simp add: abs_le_iff)?; linarith?)+
  with h have s1_pos: "0 \<le> s1 / 2"
    by ((simp add: abs_le_iff)?; linarith?)
  have e2: "\<bar>avg - s1 / 2\<bar> \<le> \<bar>s1 / 2\<bar> / 16777216 + 1 / 1427247692705959881058285969449495136382746624"
    using f32_error_numeral [of "s1 / 2"] by (simp only: avg_def)
  with s1 s1u s1_pos h have avg: "h * (1 - 3 / 16777216) \<le> avg"
    and avgu: "avg \<le> h * (1 + 3 / 16777216)"
    by ((simp add: abs_le_iff)?; linarith?)+
  with h have avg_pos: "0 < avg"
    by ((simp add: abs_le_iff)?; linarith?)
  have dd: "h * (500001 / 10000000) \<le> \<bar>df - dr\<bar>"
    using pc hpos by (simp add: h_def [symmetric] pos_le_divide_eq)
  have e3: "\<bar>f32 (df - dr) - (df - dr)\<bar> \<le> \<bar>df - dr\<bar> / 16777216 + 1 / 1427247692705959881058285969449495136382746624"
    by (rule f32_error_numeral)
  have tri: "\<bar>df - dr\<bar> \<le> \<bar>f32 (df - dr)\<bar> + \<bar>f32 (df - dr) - (df - dr)\<bar>"
    by linarith
  define m where "m = \<bar>df - dr\<bar>"
  define e where "e = \<bar>f32 (df - dr) - (df - dr)\<bar>"
  from e3 tri dd h have d1: "h * (500001 / 10000000 * (1 - 1 / 16777216) - 16 / 1427247692705959881058285969449495136382746624) \<le> d1"
    unfolding d1_def m_def [symmetric] e_def [symmetric] by (simp?; linarith?)
  have r: "(500001 / 10000000 * (1 - 1 / 16777216) - 16 / 1427247692705959881058285969449495136382746624) / (1 + 3 / 16777216) \<le> r"
  proof -
    have "(h * (500001 / 10000000 * (1 - 1 / 16777216) - 16 / 1427247692705959881058285969449495136382746624))
            / (h * (1 + 3 / 16777216)) \<le> d1 / avg"
      using d1 avg_pos avgu hpos by (intro frac_le) simp_all
    moreover have "(h * (500001 / 10000000 * (1 - 1 / 16777216) - 16 / 1427247692705959881058285969449495136382746624))
            / (h * (1 + 3 / 16777216)) =
          (500001 / 10000000 * (1 - 1 / 16777216) - 16 / 1427247692705959881058285969449495136382746624) / (1 + 3 / 16777216)"
      using hpos by simp
    ultimately show ?thesis by (simp only: r_def)
  qed
  have "\<bar>q - r\<bar> \<le> \<bar>r\<bar> / 16777216 + 1 / 1427247692705959881058285969449495136382746624"
    unfolding q_def by (rule f32_error_numeral)
  with r have q: "5000008 / 1000000 \<le> q * 100"
    by ((simp add: abs_le_iff)?; linarith?)
  have "\<bar>f32 (q * 100) - q * 100\<bar> \<le> \<bar>q * 100\<bar> / 16777216 + 1 / 1427247692705959881058285969449495136382746624"
    by (rule f32_error_numeral)
  with q have "5 < f32 (q * 100)"
    by ((simp add: abs_le_iff)?; linarith?)
  then show ?thesis
    by (simp add: q_def r_def d1_def avg_def s1_def)
qed


section \<open>Wire learning: the symmetry check of the result\<close>

lemma distance_7503: "hardware_rotations_to_distance 7503 = 5888307 / 4096"
proof -
  have "f32 (f32 (f32 7503 * (6278349 / 32768)) * (8589935 / 8589934592)) = 5888307 / 4096"
    by code_simp
  then show ?thesis
    by (simp add: hardware_rotations_to_distance_def literal_wheel_circumference
        literal_mm_to_m)
qed

lemma distance_7137: "hardware_rotations_to_distance 7137 = 11202145 / 8192"
proof -
  have "f32 (f32 (f32 7137 * (6278349 / 32768)) * (8589935 / 8589934592)) = 11202145 / 8192"
    by code_simp
  then show ?thesis
    by (simp add: hardware_rotations_to_distance_def literal_wheel_circumference
        literal_mm_to_m)
qed

lemma distance_lower_bound:
  assumes "n \<noteq> 0"
  shows "1 / 8 \<le> hardware_rotations_to_distance n"
proof -
  define a where "a = f32 (of_nat (unat n))"
  define b where "b = f32 (a * (6278349 / 32768))"
  have "0 < unat n" using assms by (simp add: unat_gt_0)
  then have "1 \<le> unat n" by simp
  then have n: "(1 :: rat) \<le> of_nat (unat n)"
    using of_nat_mono [of 1 "unat n"] by simp
  have "\<bar>a - of_nat (unat n)\<bar> \<le> \<bar>of_nat (unat n)\<bar> / 16777216 + 1 / 1427247692705959881058285969449495136382746624"
    unfolding a_def by (rule f32_error_numeral)
  with n have a: "99 / 100 \<le> a"
    by ((simp add: abs_le_iff)?; linarith?)
  have "\<bar>b - a * (6278349 / 32768)\<bar> \<le> \<bar>a * (6278349 / 32768)\<bar> / 16777216 + 1 / 1427247692705959881058285969449495136382746624"
    unfolding b_def by (rule f32_error_numeral)
  with a have b: "189 \<le> b"
    by ((simp add: abs_le_iff)?; linarith?)
  have "\<bar>f32 (b * (8589935 / 8589934592)) - b * (8589935 / 8589934592)\<bar>
          \<le> \<bar>b * (8589935 / 8589934592)\<bar> / 16777216 + 1 / 1427247692705959881058285969449495136382746624"
    by (rule f32_error_numeral)
  with b have "1 / 8 \<le> f32 (b * (8589935 / 8589934592))"
    by ((simp add: abs_le_iff)?; linarith?)
  then show ?thesis
    by (simp add: hardware_rotations_to_distance_def literal_wheel_circumference
        literal_mm_to_m b_def a_def)
qed

lemma distance_nonneg: "0 \<le> hardware_rotations_to_distance n"
  unfolding hardware_rotations_to_distance_def literal_wheel_circumference literal_mm_to_m
  by (intro f32_nonneg mult_nonneg_nonneg of_nat_0_le_iff) simp_all

lemma distance_53_54_60:
  "hardware_rotations_to_distance 53 = 10648081 / 1048576"
  "hardware_rotations_to_distance 54 = 2712247 / 262144"
  "hardware_rotations_to_distance 60 = 6027215 / 524288"
proof -
  have "f32 (f32 (f32 53 * (6278349 / 32768)) * (8589935 / 8589934592)) = 10648081 / 1048576"
    "f32 (f32 (f32 54 * (6278349 / 32768)) * (8589935 / 8589934592)) = 2712247 / 262144"
    "f32 (f32 (f32 60 * (6278349 / 32768)) * (8589935 / 8589934592)) = 6027215 / 524288"
    by code_simp+
  then show "hardware_rotations_to_distance 53 = 10648081 / 1048576"
    "hardware_rotations_to_distance 54 = 2712247 / 262144"
    "hardware_rotations_to_distance 60 = 6027215 / 524288"
    by (simp_all add: hardware_rotations_to_distance_def literal_wheel_circumference
        literal_mm_to_m)
qed

lemma calculate_length:
  "calculated_wire_length_m (wl (snd (calculate_final_results now s))) =
     f32 (f32 (forward_distance_m (wl s) + reverse_distance_m (wl s)) / 2)"
  by (simp add: calculate_final_results_def Let_def split_beta)

lemma calculate_success:
  "(fst (calculate_final_results now s) = ESP_OK) =
     (f32 (f32 (forward_distance_m (wl s) + reverse_distance_m (wl s)) / 2) \<noteq> 0 \<and>
      f32 (f32 (\<bar>f32 (forward_distance_m (wl s) - reverse_distance_m (wl s))\<bar> /
                f32 (f32 (forward_distance_m (wl s) + reverse_distance_m (wl s)) / 2)) * 100)
        \<le> WIRE_LENGTH_TOLERANCE_PERCENT)"
  by (simp add: calculate_final_results_def Let_def split_beta fdiv_def)

lemma calculate_ok:
  assumes "fst (calculate_final_results now s) = ESP_OK"
  shows "wl_state (wl (snd (calculate_final_results now s))) = WIRE_LEARNING_COMPLETE \<and>
         learning_successful (wl (snd (calculate_final_results now s))) \<and>
         complete (g_learning_results (wl (snd (calculate_final_results now s)))) \<and>
         wire_length_m (g_learning_results (wl (snd (calculate_final_results now s)))) =
           f32 (f32 (forward_distance_m (wl s) + reverse_distance_m (wl s)) / 2) \<and>
         g_wire_learning_data (coord (snd (calculate_final_results now s))) =
           g_learning_results (wl (snd (calculate_final_results now s)))"
  using assms
  by (simp add: calculate_final_results_def Let_def split_beta
      mode_coordinator_set_wire_learning_results_def split: if_splits)

lemma calculate_fail:
  assumes "fst (calculate_final_results now s) \<noteq> ESP_OK"
  shows "fst (calculate_final_results now s) = ESP_FAIL \<and>
         wl_state (wl (snd (calculate_final_results now s))) = WIRE_LEARNING_FAILED \<and>
         \<not> learning_successful (wl (snd (calculate_final_results now s))) \<and>
         g_learning_results (wl (snd (calculate_final_results now s))) =
           g_learning_results (wl s) \<and>
         coord (snd (calculate_final_results now s)) = coord s"
  using assms
  by (simp add: calculate_final_results_def Let_def split_beta split: if_splits)

lemma boundary_accepted:
  "f32 (f32 (5888307 / 4096 + 11202145 / 8192) / 2) = 5744690 / 4096 \<and>
   f32 (f32 (\<bar>f32 (5888307 / 4096 - 11202145 / 8192)\<bar> / (5744690 / 4096)) * 100) = 5"
  by code_simp


lemma boundary_rejected:
  "hardware_rotations_to_distance 205 = 10296493 / 262144 \<and>
   hardware_rotations_to_distance 195 = 9794225 / 262144 \<and>
   fst (calculate_final_results 9000000
          (measured_rotations 205 195 (learning_measured 0 0))) = ESP_FAIL"
proof -
  have d1: "f32 (f32 (f32 205 * (6278349 / 32768)) * (8589935 / 8589934592))
              = 10296493 / 262144"
    by code_simp
  have d2: "f32 (f32 (f32 195 * (6278349 / 32768)) * (8589935 / 8589934592))
              = 9794225 / 262144"
    by code_simp
  have r1: "hardware_rotations_to_distance 205 = 10296493 / 262144"
    using d1 by (simp add: hardware_rotations_to_distance_def literal_wheel_circumference
        literal_mm_to_m)
  have r2: "hardware_rotations_to_distance 195 = 9794225 / 262144"
    using d2 by (simp add: hardware_rotations_to_distance_def literal_wheel_circumference
        literal_mm_to_m)
  have av: "f32 (f32 (10296493 / 262144 + 9794225 / 262144) / 2) = 10045359 / 262144"
    by code_simp
  have pc: "\<not> f32 (f32 (\<bar>f32 (10296493 / 262144 - 9794225 / 262144)\<bar> /
                          (10045359 / 262144)) * 100) \<le> (5 :: rat)"
    by code_simp
  have fw: "forward_distance_m (wl (measured_rotations 205 195 (learning_measured 0 0)))
              = 10296493 / 262144"
    and rv: "reverse_distance_m (wl (measured_rotations 205 195 (learning_measured 0 0)))
              = 9794225 / 262144"
    by (simp_all add: measured_rotations_def r1 r2)
  have "fst (calculate_final_results 9000000
          (measured_rotations 205 195 (learning_measured 0 0))) \<noteq> ESP_OK"
    using pc
    by (simp only: calculate_success fw rv av WIRE_LENGTH_TOLERANCE_PERCENT_def) simp
  from calculate_fail [OF this] r1 r2 show ?thesis by simp
qed

text \<open>
  Claim C5, as the claim states it, fails on the code. The distances stored for 7503 and
  7137 rotations differ by more than 5 percent of their average (by 5.0000002 percent),
  and the run is declared successful: the percentage computed in single precision is
  exactly 5. And for forward 10.0 m and reverse 10.3 m (the floats nearest to these) the
  length calculated is not the average of the two stored distances: that average lies
  midway between two floats.
\<close>

theorem wire_length_boundary_counterexample:
  "\<bar>hardware_rotations_to_distance 7503 - hardware_rotations_to_distance 7137\<bar> /
     ((hardware_rotations_to_distance 7503 + hardware_rotations_to_distance 7137) / 2) * 100
     > WIRE_LENGTH_TOLERANCE_PERCENT \<and>
   fst (calculate_final_results 9000000
          (measured_rotations 7503 7137 (learning_measured 0 0))) = ESP_OK \<and>
   calculated_wire_length_m
     (wl (snd (calculate_final_results 9000000 (learning_measured (f32 10) (f32 (103 / 10))))))
     \<noteq> (f32 10 + f32 (103 / 10)) / 2"
proof -
  have fw: "forward_distance_m (wl (measured_rotations 7503 7137 (learning_measured 0 0)))
              = 5888307 / 4096"
    and rv: "reverse_distance_m (wl (measured_rotations 7503 7137 (learning_measured 0 0)))
              = 11202145 / 8192"
    by (simp_all add: measured_rotations_def distance_7503 distance_7137)
  have a: "\<bar>hardware_rotations_to_distance 7503 - hardware_rotations_to_distance 7137\<bar> /
     ((hardware_rotations_to_distance 7503 + hardware_rotations_to_distance 7137) / 2) * 100
     > WIRE_LENGTH_TOLERANCE_PERCENT"
    by (simp add: distance_7503 distance_7137 WIRE_LENGTH_TOLERANCE_PERCENT_def)
  have b: "fst (calculate_final_results 9000000
          (measured_rotations 7503 7137 (learning_measured 0 0))) = ESP_OK"
    using boundary_accepted
    by (simp only: calculate_success fw rv WIRE_LENGTH_TOLERANCE_PERCENT_def) simp
  have ten: "f32 10 = 10" and tenthree: "f32 (103 / 10) = 10800333 / 1048576"
    by code_simp+
  have av: "f32 (f32 (10 + 10800333 / 1048576) / 2) = 5321523 / 524288"
    by code_simp
  have "forward_distance_m (wl (learning_measured (f32 10) (f32 (103 / 10)))) = 10"
    and "reverse_distance_m (wl (learning_measured (f32 10) (f32 (103 / 10))))
           = 10800333 / 1048576"
    by (simp_all add: learning_measured_def ten tenthree)
  then have c: "calculated_wire_length_m
     (wl (snd (calculate_final_results 9000000 (learning_measured (f32 10) (f32 (103 / 10))))))
     = 5321523 / 524288"
    by (simp only: calculate_length av)
  have "calculated_wire_length_m
     (wl (snd (calculate_final_results 9000000 (learning_measured (f32 10) (f32 (103 / 10))))))
     \<noteq> (f32 10 + f32 (103 / 10)) / 2"
    by (simp only: c) (simp add: ten tenthree)
  with a b show ?thesis by blast
qed

text \<open>
  Claim C5, amended: the final wire length is the average of the forward and reverse
  measured distances as single-precision arithmetic gives it (the rounded sum, halved), and
  the run is declared successful exactly when the difference of the two distances, as a
  percentage of that length computed in single precision, is at most 5 (for the distances
  of any two rotation counts \<open>nf\<close> and \<open>nr\<close>; on success the result is published to the
  coordinator, otherwise the coordinator's data are untouched). Rounding matters at the
  boundary only: after a forward run of at least one rotation, two measured distances that
  differ by at most 4.99999 percent of their exact average are accepted, and two that differ
  by at least 5.00001 percent are rejected. Forward 10.0 m and reverse
  10.3 m (state \<open>a\<close>) give \<open>complete\<close> with a wire length of 10.1499996 m, less than a
  millionth of a metre from 10.15, published; forward 10.0 m and reverse 12.0 m (state \<open>b\<close>)
  give Failed, and neither the engine's nor the coordinator's result changes.
\<close>

theorem wire_length_symmetry_check:
  assumes "forward_distance_m (wl a) = f32 10" and "reverse_distance_m (wl a) = f32 (103 / 10)"
    and "forward_distance_m (wl b) = f32 10" and "reverse_distance_m (wl b) = f32 12"
    and "m = measured_rotations nf nr s"
    and "df = hardware_rotations_to_distance nf"
    and "dr = hardware_rotations_to_distance nr"
  shows "calculated_wire_length_m (wl (snd (calculate_final_results now m))) =
           f32 (f32 (df + dr) / 2) \<and>
         (fst (calculate_final_results now m) = ESP_OK) =
           (f32 (f32 (df + dr) / 2) \<noteq> 0 \<and>
            f32 (f32 (\<bar>f32 (df - dr)\<bar> / f32 (f32 (df + dr) / 2)) * 100)
              \<le> WIRE_LENGTH_TOLERANCE_PERCENT) \<and>
         wl_state (wl (snd (calculate_final_results now m))) =
           (if fst (calculate_final_results now m) = ESP_OK
            then WIRE_LEARNING_COMPLETE else WIRE_LEARNING_FAILED) \<and>
         g_wire_learning_data (coord (snd (calculate_final_results now m))) =
           (if fst (calculate_final_results now m) = ESP_OK
            then g_learning_results (wl (snd (calculate_final_results now m)))
            else g_wire_learning_data (coord s)) \<and>
         fst (calculate_final_results now a) = ESP_OK \<and>
         complete (g_learning_results (wl (snd (calculate_final_results now a)))) \<and>
         wire_length_m (g_learning_results (wl (snd (calculate_final_results now a))))
           = 5321523 / 524288 \<and>
         \<bar>wire_length_m (g_learning_results (wl (snd (calculate_final_results now a))))
            - 1015 / 100\<bar> < 1 / 1000000 \<and>
         wire_length_m (g_wire_learning_data (coord (snd (calculate_final_results now a))))
           = 5321523 / 524288 \<and>
         complete (g_wire_learning_data (coord (snd (calculate_final_results now a)))) \<and>
         fst (calculate_final_results now b) = ESP_FAIL \<and>
         wl_state (wl (snd (calculate_final_results now b))) = WIRE_LEARNING_FAILED \<and>
         coord (snd (calculate_final_results now b)) = coord b \<and>
         g_learning_results (wl (snd (calculate_final_results now b))) =
           g_learning_results (wl b) \<and>
         (nf \<noteq> 0 \<and> \<bar>df - dr\<bar> / ((df + dr) / 2) * 100 \<le> 5 - 1 / 100000
            \<longrightarrow> fst (calculate_final_results now m) = ESP_OK) \<and>
         (nf \<noteq> 0 \<and> 5 + 1 / 100000 \<le> \<bar>df - dr\<bar> / ((df + dr) / 2) * 100
            \<longrightarrow> fst (calculate_final_results now m) = ESP_FAIL)"
proof -
  have ten: "f32 10 = 10" and tenthree: "f32 (103 / 10) = 10800333 / 1048576"
    and twelve: "f32 12 = 12"
    by code_simp+
  have fa: "forward_distance_m (wl a) = 10"
    and ra: "reverse_distance_m (wl a) = 10800333 / 1048576"
    and fb: "forward_distance_m (wl b) = 10" and rb: "reverse_distance_m (wl b) = 12"
    using assms(1-4) by (simp_all only: ten tenthree twelve)
  have ava: "f32 (f32 (10 + 10800333 / 1048576) / 2) = 5321523 / 524288"
    by code_simp
  have pca: "f32 (f32 (\<bar>f32 (10 - 10800333 / 1048576)\<bar> / (5321523 / 524288)) * 100)
               \<le> (5 :: rat)"
    by code_simp
  have avb: "f32 (f32 (10 + 12) / 2) = 11"
    by code_simp
  have pcb: "\<not> f32 (f32 (\<bar>f32 (10 - 12)\<bar> / 11) * 100) \<le> (5 :: rat)"
    by code_simp
  have oka: "fst (calculate_final_results now a) = ESP_OK"
    using pca by (simp only: calculate_success fa ra ava WIRE_LENGTH_TOLERANCE_PERCENT_def) simp
  have failb: "fst (calculate_final_results now b) \<noteq> ESP_OK"
    using pcb by (simp only: calculate_success fb rb avb WIRE_LENGTH_TOLERANCE_PERCENT_def) simp
  have fm: "forward_distance_m (wl m) = df" and rm: "reverse_distance_m (wl m) = dr"
    and cm: "coord m = coord s"
    using assms(5-7) by (simp_all add: measured_rotations_def)
  have len: "calculated_wire_length_m (wl (snd (calculate_final_results now m))) =
           f32 (f32 (df + dr) / 2)"
    by (simp only: calculate_length fm rm)
  have suc: "(fst (calculate_final_results now m) = ESP_OK) =
           (f32 (f32 (df + dr) / 2) \<noteq> 0 \<and>
            f32 (f32 (\<bar>f32 (df - dr)\<bar> / f32 (f32 (df + dr) / 2)) * 100)
              \<le> WIRE_LENGTH_TOLERANCE_PERCENT)"
    by (simp only: calculate_success fm rm)
  have st: "wl_state (wl (snd (calculate_final_results now m))) =
           (if fst (calculate_final_results now m) = ESP_OK
            then WIRE_LEARNING_COMPLETE else WIRE_LEARNING_FAILED)"
    using calculate_ok [of now m] calculate_fail [of now m] by simp
  have pub: "g_wire_learning_data (coord (snd (calculate_final_results now m))) =
           (if fst (calculate_final_results now m) = ESP_OK
            then g_learning_results (wl (snd (calculate_final_results now m)))
            else g_wire_learning_data (coord s))"
    using calculate_ok [of now m] calculate_fail [of now m] cm by simp
  have la: "f32 (f32 (forward_distance_m (wl a) + reverse_distance_m (wl a)) / 2)
              = 5321523 / 524288"
    by (simp only: fa ra ava)
  have near: "\<bar>(5321523 :: rat) / 524288 - 1015 / 100\<bar> < 1 / 1000000"
    by simp
  have resa: "complete (g_learning_results (wl (snd (calculate_final_results now a)))) \<and>
         wire_length_m (g_learning_results (wl (snd (calculate_final_results now a))))
           = 5321523 / 524288 \<and>
         g_wire_learning_data (coord (snd (calculate_final_results now a))) =
           g_learning_results (wl (snd (calculate_final_results now a)))"
    using calculate_ok [OF oka] by (simp only: la)
  have far: "1 / 8 \<le> df + dr" if "nf \<noteq> 0"
    using distance_lower_bound [OF that] distance_nonneg [of nr] assms(6,7) by simp
  have acc: "nf \<noteq> 0 \<and> \<bar>df - dr\<bar> / ((df + dr) / 2) * 100 \<le> 5 - 1 / 100000
            \<longrightarrow> fst (calculate_final_results now m) = ESP_OK"
    using percent_accepted_below [of df dr] far
    by (simp only: suc WIRE_LENGTH_TOLERANCE_PERCENT_def) blast
  have rej: "nf \<noteq> 0 \<and> 5 + 1 / 100000 \<le> \<bar>df - dr\<bar> / ((df + dr) / 2) * 100
            \<longrightarrow> fst (calculate_final_results now m) = ESP_FAIL"
  proof (intro impI, elim conjE)
    assume "nf \<noteq> 0" and "5 + 1 / 100000 \<le> \<bar>df - dr\<bar> / ((df + dr) / 2) * 100"
    then have "5 < f32 (f32 (\<bar>f32 (df - dr)\<bar> / f32 (f32 (df + dr) / 2)) * 100)"
      using percent_rejected_above [of df dr] far by blast
    then have "fst (calculate_final_results now m) \<noteq> ESP_OK"
      by (simp only: suc WIRE_LENGTH_TOLERANCE_PERCENT_def) simp
    then show "fst (calculate_final_results now m) = ESP_FAIL"
      using calculate_fail [of now m] by blast
  qed
  from len suc st pub oka resa near calculate_fail [OF failb] acc rej
  show ?thesis by (simp only:)
qed


theorem wire_length_symmetry_check_witness:
  "forward_distance_m (wl (learning_measured (f32 10) (f32 (103 / 10)))) = f32 10 \<and>
   reverse_distance_m (wl (learning_measured (f32 10) (f32 (103 / 10)))) = f32 (103 / 10) \<and>
   forward_distance_m (wl (learning_measured (f32 10) (f32 12))) = f32 10 \<and>
   reverse_distance_m (wl (learning_measured (f32 10) (f32 12))) = f32 12 \<and>
   calculated_wire_length_m
     (wl (snd (calculate_final_results 9000000
                 (measured_rotations 53 54 (learning_measured 0 0)))))
     = f32 (f32 (hardware_rotations_to_distance 53 + hardware_rotations_to_distance 54) / 2) \<and>
   complete (g_learning_results
     (wl (snd (calculate_final_results 9000000 (learning_measured (f32 10) (f32 (103 / 10))))))) \<and>
   wire_length_m (g_wire_learning_data
     (coord (snd (calculate_final_results 9000000 (learning_measured (f32 10) (f32 (103 / 10)))))))
     = 5321523 / 524288 \<and>
   wl_state (wl (snd (calculate_final_results 9000000 (learning_measured (f32 10) (f32 12)))))
     = WIRE_LEARNING_FAILED \<and>
   \<not> complete (g_wire_learning_data
     (coord (snd (calculate_final_results 9000000 (learning_measured (f32 10) (f32 12)))))) \<and>
   (53 :: 32 word) \<noteq> 0 \<and>
   \<bar>hardware_rotations_to_distance 53 - hardware_rotations_to_distance 54\<bar> /
     ((hardware_rotations_to_distance 53 + hardware_rotations_to_distance 54) / 2) * 100
     \<le> 5 - 1 / 100000 \<and>
   fst (calculate_final_results 9000000
          (measured_rotations 53 54 (learning_measured 0 0))) = ESP_OK \<and>
   5 + 1 / 100000
     \<le> \<bar>hardware_rotations_to_distance 53 - hardware_rotations_to_distance 60\<bar> /
         ((hardware_rotations_to_distance 53 + hardware_rotations_to_distance 60) / 2) * 100 \<and>
   fst (calculate_final_results 9000000
          (measured_rotations 53 60 (learning_measured 0 0))) = ESP_FAIL"
proof -
  have a: "forward_distance_m (wl (learning_measured (f32 10) (f32 (103 / 10)))) = f32 10"
      "reverse_distance_m (wl (learning_measured (f32 10) (f32 (103 / 10)))) = f32 (103 / 10)"
    and b: "forward_distance_m (wl (learning_measured (f32 10) (f32 12))) = f32 10"
      "reverse_distance_m (wl (learning_measured (f32 10) (f32 12))) = f32 12"
    by (simp_all add: learning_measured_def)
  have c: "\<not> complete (g_wire_learning_data (coord (learning_measured (f32 10) (f32 12))))"
    by (simp add: learning_measured_def system_boot_def coordinator_boot_def
        wire_learning_results_zero_def)
  have near: "\<bar>hardware_rotations_to_distance 53 - hardware_rotations_to_distance 54\<bar> /
     ((hardware_rotations_to_distance 53 + hardware_rotations_to_distance 54) / 2) * 100
     \<le> 5 - 1 / 100000"
    and far: "5 + 1 / 100000
     \<le> \<bar>hardware_rotations_to_distance 53 - hardware_rotations_to_distance 60\<bar> /
         ((hardware_rotations_to_distance 53 + hardware_rotations_to_distance 60) / 2) * 100"
    by (simp_all add: distance_53_54_60)
  have nz: "(53 :: 32 word) \<noteq> 0" by simp
  from wire_length_symmetry_check [OF a b refl refl refl,
      of 9000000 53 54 "learning_measured 0 0"] near nz
  have first: "calculated_wire_length_m
     (wl (snd (calculate_final_results 9000000
                 (measured_rotations 53 54 (learning_measured 0 0)))))
     = f32 (f32 (hardware_rotations_to_distance 53 + hardware_rotations_to_distance 54) / 2)"
    "complete (g_learning_results
     (wl (snd (calculate_final_results 9000000 (learning_measured (f32 10) (f32 (103 / 10)))))))"
    "wire_length_m (g_wire_learning_data
     (coord (snd (calculate_final_results 9000000 (learning_measured (f32 10) (f32 (103 / 10)))))))
     = 5321523 / 524288"
    "wl_state (wl (snd (calculate_final_results 9000000 (learning_measured (f32 10) (f32 12)))))
     = WIRE_LEARNING_FAILED"
    "coord (snd (calculate_final_results 9000000 (learning_measured (f32 10) (f32 12))))
     = coord (learning_measured (f32 10) (f32 12))"
    "fst (calculate_final_results 9000000
          (measured_rotations 53 54 (learning_measured 0 0))) = ESP_OK"
    by blast+
  from wire_length_symmetry_check [OF a b refl refl refl,
      of 9000000 53 60 "learning_measured 0 0"] far nz
  have second: "fst (calculate_final_results 9000000
          (measured_rotations 53 60 (learning_measured 0 0))) = ESP_FAIL"
    by blast
  from a b c first second near far nz show ?thesis by (simp only:) simp
qed

section \<open>The sensor validation handshake\<close>

lemma validation_run_snoc:
  "validation_run (calls @ [x]) c = validation_step x (validation_run calls c)"
  by (simp add: validation_run_def)

lemma wheel_seen_snoc:
  "wheel_seen (calls @ [x]) =
     (wheel_seen calls \<or> (\<exists>sh t. x = UpdateValidation sh t \<and> wheel_rotation_detected sh))"
  by (auto simp: wheel_seen_def)

lemma handshake_step:
  assumes "handshake_inv calls c"
  shows "handshake_inv (calls @ [x]) (validation_step x c)"
proof (cases x)
  case (StartValidation now)
  with assms show ?thesis
    by (simp add: handshake_inv_def mode_coordinator_start_sensor_validation_def)
next
  case ConfirmHall
  with assms show ?thesis
    by (auto simp: handshake_inv_def mode_coordinator_confirm_hall_validation_def
        wheel_seen_snoc)
next
  case ConfirmAccel
  with assms show ?thesis
    by (auto simp: handshake_inv_def mode_coordinator_confirm_accel_validation_def
        wheel_seen_snoc)
next
  case (UpdateValidation sh now)
  with assms show ?thesis
    by (cases "sensor_validation_state c")
       (auto simp: handshake_inv_def update_sensor_validation_state_def Let_def
          wheel_seen_snoc)
qed

lemma handshake_run:
  "handshake_inv calls (validation_run calls coordinator_boot)"
proof (induction calls rule: rev_induct)
  case Nil
  show ?case
    by (simp add: handshake_inv_def validation_run_def coordinator_boot_def)
next
  case (snoc x xs)
  then show ?case
    by (simp add: validation_run_snoc handshake_step)
qed

text \<open>
  The part of the gate that the code does enforce: after any sequence of calls from boot,
  \<open>sensors_validated\<close> needs both confirmation calls and an update that saw the wheel
  rotation detected.
\<close>

lemma validated_needs_wheel_and_confirmations:
  assumes "sensors_validated (validation_run calls coordinator_boot)"
  shows "ConfirmHall \<in> set calls \<and> ConfirmAccel \<in> set calls \<and> wheel_seen calls"
  using assms handshake_run [of calls] by (simp add: handshake_inv_def)

text \<open>
  Claim C1 asks that \<open>sensors_validated\<close> stays false until both confirmations have been
  made and both physical detections have occurred. The code at the sequence start, update
  (wheel detected), confirm Hall, update, confirm accelerometer, update, where no update
  ever sees \<open>trolley_shake_detected\<close>: the flag ends true. The accelerometer confirmation
  is accepted as soon as the state is accelerometer-pending, shake or no shake.
\<close>

theorem validation_completes_without_shake:
  "sensors_validated (validation_run validation_without_shake coordinator_boot) \<and>
   \<not> trolley_shake_detected sensor_wheel_only"
  by (simp add: validation_run_def validation_without_shake_def sensor_wheel_only_def
      coordinator_boot_def update_sensor_validation_state_def
      mode_coordinator_start_sensor_validation_def mode_coordinator_confirm_hall_validation_def
      mode_coordinator_confirm_accel_validation_def SENSOR_VALIDATION_TIMEOUT_MS_def Let_def)

section \<open>Emergency stop and the single active mode\<close>

lemma set_motor_speed_zero_stopped:
  "motor_stopped h \<Longrightarrow> motor_stopped (snd (hardware_set_motor_speed 0 forward h))"
  by (simp add: hardware_set_motor_speed_def motor_stopped_def)

lemma manual_set_speed_zero_frame:
  "am (snd (manual_mode_set_speed 0 forward s)) = am s"
  "wl (snd (manual_mode_set_speed 0 forward s)) = wl s"
  "motor_stopped (hw s) \<Longrightarrow> motor_stopped (hw (snd (manual_mode_set_speed 0 forward s)))"
  using set_motor_speed_zero_stopped [of "hw s" forward]
  by (simp_all add: manual_mode_set_speed_def Let_def split_beta)

lemma manual_stop_movement_frame:
  "am (snd (manual_mode_stop_movement s)) = am s"
  "wl (snd (manual_mode_stop_movement s)) = wl s"
  "motor_stopped (hw s) \<Longrightarrow> motor_stopped (hw (snd (manual_mode_stop_movement s)))"
  by (simp_all add: manual_mode_stop_movement_def split_beta manual_set_speed_zero_frame)

lemma manual_disarm_frame:
  "am (snd (manual_mode_disarm_esc s)) = am s"
  "wl (snd (manual_mode_disarm_esc s)) = wl s"
  "motor_stopped (hw (snd (manual_mode_disarm_esc s)))"
  by (simp_all add: manual_mode_disarm_esc_def Let_def split_beta manual_stop_movement_frame
      hardware_esc_disarm_def motor_stopped_def)

lemma manual_stop_frame:
  "am (snd (manual_mode_stop now s)) = am s"
  "wl (snd (manual_mode_stop now s)) = wl s"
  "motor_stopped (hw s) \<Longrightarrow> motor_stopped (hw (snd (manual_mode_stop now s)))"
  "man_state (mm (snd (manual_mode_stop now s))) = MANUAL_MODE_IDLE"
  by (simp_all add: manual_mode_stop_def Let_def manual_stop_movement_frame manual_disarm_frame)

lemma interrupt_effect:
  "auto_state (am (snd (automatic_mode_interrupt s))) = AUTO_MODE_STOPPING_INTERRUPTED"
  "wl (snd (automatic_mode_interrupt s)) = wl s"
  "motor_stopped (hw (snd (automatic_mode_interrupt s)))"
  by (simp_all add: automatic_mode_interrupt_def automatic_mode_auto_disarm_esc_def Let_def
      split_beta hardware_esc_disarm_def hardware_emergency_stop_def motor_stopped_def)

text \<open>
  What the emergency stop does reach from every state: the motor is commanded to stand
  still, wire learning and the manual mode are idle. The automatic engine is left in its
  interrupted state, which its \<open>is_active\<close> predicate counts as active, and its update
  leaves it there.
\<close>

lemma emergency_stop_effect:
  "motor_stopped (hw (snd (mode_coordinator_emergency_stop now s)))"
  "wl_state (wl (snd (mode_coordinator_emergency_stop now s))) = WIRE_LEARNING_IDLE"
  "man_state (mm (snd (mode_coordinator_emergency_stop now s))) = MANUAL_MODE_IDLE"
  "auto_state (am (snd (mode_coordinator_emergency_stop now s))) =
     AUTO_MODE_STOPPING_INTERRUPTED"
  by (simp_all add: mode_coordinator_emergency_stop_def Let_def manual_stop_frame
      interrupt_effect wire_learning_mode_stop_def)

lemma emergency_stop_then_update:
  "automatic_mode_is_active
     (am (snd (automatic_mode_update later (snd (mode_coordinator_emergency_stop now s)))))"
  by (simp add: automatic_mode_update_def emergency_stop_effect automatic_mode_is_active_def)

text \<open>
  Claim C2 asks that an emergency stop from any mode's any state gives target speed 0,
  neutral ESC duty and an inactive mode within one update cycle. The code at the running
  automatic mode reached by \<open>boot_to_automatic\<close>, after the emergency stop, one update
  of the automatic engine and one ESC update step: target speed 0 and neutral duty, but
  the automatic engine is in \<open>AUTO_MODE_STOPPING_INTERRUPTED\<close> and still reports active.
\<close>

theorem emergency_stop_leaves_automatic_active:
  "automatic_mode_is_active (am automatic_running) \<and>
   target_speed_ms (hw (system_run [EmergencyStop 3000000, AutomaticUpdate 3050000,
                                   EscUpdate 3060000] automatic_running)) = 0 \<and>
   current_esc_duty (hw (system_run [EmergencyStop 3000000, AutomaticUpdate 3050000,
                                   EscUpdate 3060000] automatic_running)) = ESC_NEUTRAL_DUTY \<and>
   auto_state (am (system_run [EmergencyStop 3000000, AutomaticUpdate 3050000,
                                   EscUpdate 3060000] automatic_running)) =
     AUTO_MODE_STOPPING_INTERRUPTED \<and>
   automatic_mode_is_active (am (system_run [EmergencyStop 3000000, AutomaticUpdate 3050000,
                                   EscUpdate 3060000] automatic_running))"
  by code_simp

text \<open>
  Claim C7 asks that at most one mode engine reports active after any sequence of
  activation calls, the active one being stopped before the next starts. The code at the
  running automatic mode (one engine active, recorded as the current mode) when the manual
  mode is activated: the coordinator interrupts the automatic engine, whose interrupted
  state still counts as active, and starts the manual engine, so two engines report
  active.
\<close>

theorem two_engines_active_after_activation:
  "active_engines automatic_running = 1 \<and>
   current_mode (coord automatic_running) = TROLLEY_MODE_AUTOMATIC \<and>
   active_engines (system_run [ActivateManual 2260000] automatic_running) = 2 \<and>
   automatic_mode_is_active (am (system_run [ActivateManual 2260000] automatic_running)) \<and>
   manual_mode_is_active (mm (system_run [ActivateManual 2260000] automatic_running))"
  by code_simp

text \<open>
  A second way to two active engines: the coordinator's record of the current mode is
  refreshed only by its update, so two activations with no update between them find
  nothing to stop. Wire learning and the manual mode are active together.
\<close>

lemma activation_without_update_between:
  "active_engines (system_run (boot_to_available @
      [ActivateWireLearning 2210000, ActivateManual 2260000]) system_boot) = 2"
  by code_simp

end
